theory Spec2Isabelle
  imports Complex_Main "HOL-Library.Multiset"
begin

section \<open>BrewMe: the scaling, costing and batch-commit engine\<close>

text \<open>
  A shallow embedding of \<^verbatim>\<open>services.py\<close> and of the parts of \<^verbatim>\<open>db.py\<close> and
  \<^verbatim>\<open>gui.py\<close> it works with. Python floats are read as real numbers: every
  statement below is about exact arithmetic, and says nothing about rounding, NaN or
  infinities. SQL tables are lists of rows in rowid order. A raised exception is the
  left summand of a result, and every service function returns the world it leaves
  behind, so that "nothing was written" is a statement and not a convention.
\<close>

subsection \<open>Named constants (services.py, lines 11 and 12)\<close>

definition MIN_VOLUME_BBL :: real where
  "MIN_VOLUME_BBL = 5 / 10"

definition COST_MARKUP :: real where
  "COST_MARKUP = 115 / 100"

subsection \<open>The tables (db.create\_tables)\<close>

text \<open>Ingredients(id, name, type, cost, detail1, unit, inventory\_qty).\<close>

record ingredient_row =
  ing_id :: int
  ing_name :: string
  ing_type :: string
  ing_cost :: real
  detail1 :: real
  ing_unit :: string
  inventory_qty :: real

text \<open>Recipe\_Details(recipe\_id, ingredient\_id, quantity).\<close>

record detail_row =
  recipe_id :: int
  ingredient_id :: int
  quantity :: real

text \<open>Batch\_Log(id, recipe\_name, volume\_BBL, final\_cost, date\_brewed).\<close>

record batch_row =
  batch_id :: int
  recipe_name :: string
  volume_BBL :: real
  final_cost :: real
  date_brewed :: string

text \<open>
  The database file. The Recipes table is left out: none of the functions below reads
  or writes it.
\<close>

record database =
  Ingredients :: "ingredient_row list"
  Recipe_Details :: "detail_row list"
  Batch_Log :: "batch_row list"

text \<open>
  The world a service call runs in: the file, and whether \<^verbatim>\<open>sqlite3.connect\<close> succeeds
  on it. Availability is taken as fixed for the length of one call.
\<close>

record world =
  db_available :: bool
  db_file :: database

datatype error = ValueError | TypeError | IntegrityError

text \<open>
  The dictionaries \<^verbatim>\<open>{'id': .., 'name': .., 'quantity': .., 'unit': ..}\<close> that
  \<^verbatim>\<open>scale_recipe\<close> builds and the other two services consume.
\<close>

record item =
  item_id :: int
  item_name :: string
  item_quantity :: real
  item_unit :: string

subsection \<open>db.py\<close>

text \<open>\<^verbatim>\<open>connect_db\<close>: the connection, or \<^verbatim>\<open>None\<close> after an \<^verbatim>\<open>sqlite3.Error\<close>.\<close>

definition connect_db :: "world \<Rightarrow> database option" where
  "connect_db w = (if db_available w then Some (db_file w) else None)"

text \<open>
  \<^verbatim>\<open>SELECT .. FROM Ingredients WHERE id = ?\<close> followed by \<^verbatim>\<open>fetchone()\<close>: the
  first matching row, or \<^verbatim>\<open>None\<close>.
\<close>

definition fetch_ingredient :: "database \<Rightarrow> int \<Rightarrow> ingredient_row option" where
  "fetch_ingredient conn i = find (\<lambda>r. ing_id r = i) (Ingredients conn)"

text \<open>
  \<^verbatim>\<open>update_inventory_qty\<close>:
  \<^verbatim>\<open>UPDATE Ingredients SET inventory_qty = MAX(0, inventory_qty + ?) WHERE id = ?\<close>,
  committed; returns \<^verbatim>\<open>cursor.rowcount\<close>.
\<close>

definition update_inventory_qty :: "database \<Rightarrow> int \<Rightarrow> real \<Rightarrow> nat \<times> database" where
  "update_inventory_qty conn ingredient_id' delta_qty =
     (length (filter (\<lambda>r. ing_id r = ingredient_id') (Ingredients conn)),
      conn\<lparr>Ingredients :=
        map (\<lambda>r. if ing_id r = ingredient_id'
                  then r\<lparr>inventory_qty := max 0 (inventory_qty r + delta_qty)\<rparr>
                  else r)
            (Ingredients conn)\<rparr>)"

text \<open>The rowid SQLite gives to a row inserted without one: one more than the largest.\<close>

definition next_rowid :: "int list \<Rightarrow> int" where
  "next_rowid ids = (case ids of [] \<Rightarrow> 1 | i # rest \<Rightarrow> fold max rest i + 1)"

text \<open>\<^verbatim>\<open>log_batch\<close>: one INSERT into Batch\_Log, committed; returns \<^verbatim>\<open>lastrowid\<close>.\<close>

definition log_batch ::
  "database \<Rightarrow> string \<Rightarrow> real \<Rightarrow> real \<Rightarrow> string \<Rightarrow> int \<times> database" where
  "log_batch conn recipe_name' volume final_cost' date_brewed' =
     (let rowid = next_rowid (map batch_id (Batch_Log conn)) in
      (rowid,
       conn\<lparr>Batch_Log := Batch_Log conn @
         [\<lparr>batch_id = rowid, recipe_name = recipe_name', volume_BBL = volume,
           final_cost = final_cost', date_brewed = date_brewed'\<rparr>]\<rparr>))"

subsection \<open>services.scale\_recipe\<close>

text \<open>
  The \<^verbatim>\<open>for\<close> loop of lines 52 to 65, with \<^verbatim>\<open>scaled_ingredients\<close> as the
  accumulator. Unpacking \<^verbatim>\<open>cursor.fetchone()\<close> raises \<^verbatim>\<open>TypeError\<close> when
  no ingredient has the id.
\<close>

fun scale_loop ::
  "database \<Rightarrow> real \<Rightarrow> (int \<times> real) list \<Rightarrow> item list \<Rightarrow> error + item list" where
  "scale_loop conn scale_factor [] scaled_ingredients = Inr scaled_ingredients"
| "scale_loop conn scale_factor ((ing_id', original_qty) # rest) scaled_ingredients =
     (let scaled_qty = original_qty * scale_factor in
      case fetch_ingredient conn ing_id' of
        None \<Rightarrow> Inl TypeError
      | Some r \<Rightarrow>
          scale_loop conn scale_factor rest
            (scaled_ingredients @
              [\<lparr>item_id = ing_id', item_name = ing_name r,
                item_quantity = scaled_qty, item_unit = ing_unit r\<rparr>]))"

text \<open>
  \<^verbatim>\<open>SELECT ingredient_id, quantity FROM Recipe_Details WHERE recipe_id = ?\<close>.
\<close>

definition select_details :: "database \<Rightarrow> int \<Rightarrow> (int \<times> real) list" where
  "select_details conn rid =
     map (\<lambda>d. (ingredient_id d, quantity d))
       (filter (\<lambda>d. recipe_id d = rid) (Recipe_Details conn))"

text \<open>
  \<^verbatim>\<open>scale_recipe\<close>. With no connection the source returns \<^verbatim>\<open>({}, 0)\<close>, an empty
  collection and the number zero.
\<close>

definition scale_recipe ::
  "int \<Rightarrow> real \<Rightarrow> real \<Rightarrow> world \<Rightarrow> (error + item list \<times> real) \<times> world" where
  "scale_recipe rid original_volume new_volume w =
     (if original_volume \<le> MIN_VOLUME_BBL \<or> new_volume \<le> MIN_VOLUME_BBL
      then (Inl ValueError, w)
      else
        let scale_factor = new_volume / original_volume in
        case connect_db w of
          None \<Rightarrow> (Inr ([], 0), w)
        | Some conn \<Rightarrow>
            (let original_quantities = select_details conn rid in
             case scale_loop conn scale_factor original_quantities [] of
               Inl e \<Rightarrow> (Inl e, w)
             | Inr scaled_ingredients \<Rightarrow> (Inr (scaled_ingredients, scale_factor), w)))"

subsection \<open>services.calculate\_recipe\_cost\<close>

text \<open>
  The recursion of the source, on \<^verbatim>\<open>ingredient_list[1:]\<close>, with its own
  termination proof: the list gets shorter. Each level opens a connection of its own;
  subscripting \<^verbatim>\<open>cursor.fetchone()\<close> raises \<^verbatim>\<open>TypeError\<close> when no ingredient
  has the id. (The interpreter's recursion limit is not part of the model.)
\<close>

function calculate_recipe_cost :: "item list \<Rightarrow> world \<Rightarrow> (error + real) \<times> world" where
  "calculate_recipe_cost ingredient_list w =
     (if ingredient_list = [] then (Inr 0, w)
      else
        let head_ingredient = hd ingredient_list;
            ing_id' = item_id head_ingredient;
            qty = item_quantity head_ingredient
        in case connect_db w of
             None \<Rightarrow> (Inr 0, w)
           | Some conn \<Rightarrow>
               (case fetch_ingredient conn ing_id' of
                  None \<Rightarrow> (Inl TypeError, w)
                | Some r \<Rightarrow>
                    (let cost_per_unit = ing_cost r;
                         current_cost = cost_per_unit * qty
                     in case calculate_recipe_cost (drop 1 ingredient_list) w of
                          (Inl e, w') \<Rightarrow> (Inl e, w')
                        | (Inr rest, w') \<Rightarrow> (Inr (current_cost + rest), w'))))"
  by pat_completeness auto
termination
  by (relation "measure (\<lambda>(ingredient_list, w). length ingredient_list)") auto

subsection \<open>Two-decimal formatting\<close>

text \<open>
  The amount \<^verbatim>\<open>f"{x:.2f}"\<close> prints, in hundredths: the nearest one, a tie going to
  the even neighbour.
\<close>

definition format_2f :: "real \<Rightarrow> int" where
  "format_2f x =
     (let h = x * 100; f = \<lfloor>h\<rfloor>; d = h - of_int f in
      if d < 1 / 2 then f
      else if 1 / 2 < d then f + 1
      else if even f then f else f + 1)"

subsection \<open>services.calculate\_and\_log\_batch\<close>

text \<open>
  The second component of the pair the source returns:
  \<^verbatim>\<open>"Database connection failed."\<close>, the f-string
  \<^verbatim>\<open>"Insufficient inventory of {name}! Needs {qty_needed:.2f}, has {current_qty:.2f}."\<close>
  by what it prints (the name, and the two amounts with two decimals, each kept as a
  whole number of hundredths), and
  \<^verbatim>\<open>"Batch successfully logged and inventory updated."\<close>.
\<close>

datatype message =
    Connection_failed
  | Insufficient_inventory string int int
  | Batch_logged

text \<open>
  The first loop (lines 113 to 124): \<^verbatim>\<open>None\<close> when it runs to its end, the
  message of the early return otherwise.
\<close>

fun check_inventory :: "database \<Rightarrow> item list \<Rightarrow> error + message option" where
  "check_inventory conn [] = Inr None"
| "check_inventory conn (ing # rest) =
     (let ing_id' = item_id ing; qty_needed = item_quantity ing in
      case fetch_ingredient conn ing_id' of
        None \<Rightarrow> Inl TypeError
      | Some r \<Rightarrow>
          (let current_qty = inventory_qty r in
           if current_qty < qty_needed
           then Inr (Some (Insufficient_inventory (item_name ing)
                             (format_2f qty_needed) (format_2f current_qty)))
           else check_inventory conn rest))"

text \<open>The second loop (lines 127 to 131).\<close>

fun consume_inventory :: "database \<Rightarrow> item list \<Rightarrow> database" where
  "consume_inventory conn [] = conn"
| "consume_inventory conn (ing # rest) =
     (let ing_id' = item_id ing; qty_consumed = - item_quantity ing in
      consume_inventory (snd (update_inventory_qty conn ing_id' qty_consumed)) rest)"

text \<open>
  \<^verbatim>\<open>calculate_and_log_batch\<close>; \<open>date_str\<close> is what
  \<^verbatim>\<open>datetime.datetime.now().strftime('%Y-%m-%d %H:%M')\<close> reads off the clock.
\<close>

definition calculate_and_log_batch ::
  "string \<Rightarrow> real \<Rightarrow> real \<Rightarrow> string \<Rightarrow> item list \<Rightarrow> world
     \<Rightarrow> (error + bool \<times> message) \<times> world" where
  "calculate_and_log_batch recipe_name' volume final_cost' date_str ingredient_list w =
     (case connect_db w of
        None \<Rightarrow> (Inr (False, Connection_failed), w)
      | Some conn \<Rightarrow>
          (case check_inventory conn ingredient_list of
             Inl e \<Rightarrow> (Inl e, w)
           | Inr (Some msg) \<Rightarrow> (Inr (False, msg), w)
           | Inr None \<Rightarrow>
               (let conn1 = consume_inventory conn ingredient_list;
                    conn2 = snd (log_batch conn1 recipe_name' volume final_cost' date_str)
                in (Inr (True, Batch_logged), w\<lparr>db_file := conn2\<rparr>))))"

subsection \<open>The rest of db.py that writes the Ingredients table\<close>

text \<open>
  \<^verbatim>\<open>add_ingredient\<close>: the INSERT fails on the UNIQUE constraint of the name, and
  the function then returns the string \<^verbatim>\<open>"DUPLICATE_NAME"\<close>; otherwise it returns
  \<^verbatim>\<open>lastrowid\<close>.
\<close>

datatype add_result = DUPLICATE_NAME | Rowid int

definition add_ingredient ::
  "database \<Rightarrow> string \<Rightarrow> string \<Rightarrow> real \<Rightarrow> real \<Rightarrow> string \<Rightarrow> real
     \<Rightarrow> add_result \<times> database" where
  "add_ingredient conn name ingredient_type cost' detail unit' qty =
     (if name \<in> set (map ing_name (Ingredients conn)) then (DUPLICATE_NAME, conn)
      else
        let rowid = next_rowid (map ing_id (Ingredients conn)) in
        (Rowid rowid,
         conn\<lparr>Ingredients := Ingredients conn @
           [\<lparr>ing_id = rowid, ing_name = name, ing_type = ingredient_type,
             ing_cost = cost', detail1 = detail, ing_unit = unit',
             inventory_qty = qty\<rparr>]\<rparr>))"

text \<open>
  \<^verbatim>\<open>delete_ingredient\<close>: with \<^verbatim>\<open>PRAGMA foreign_keys=ON\<close> and
  \<^verbatim>\<open>ON DELETE RESTRICT\<close>, deleting an ingredient a recipe uses raises
  \<^verbatim>\<open>sqlite3.IntegrityError\<close>; otherwise the rows go and \<^verbatim>\<open>rowcount\<close> is
  returned.
\<close>

definition delete_ingredient :: "database \<Rightarrow> int \<Rightarrow> error + nat \<times> database" where
  "delete_ingredient conn ingredient_id' =
     (if ingredient_id' \<in> set (map ingredient_id (Recipe_Details conn))
         \<and> ingredient_id' \<in> set (map ing_id (Ingredients conn))
      then Inl IntegrityError
      else Inr (length (filter (\<lambda>r. ing_id r = ingredient_id') (Ingredients conn)),
                conn\<lparr>Ingredients :=
                  filter (\<lambda>r. ing_id r \<noteq> ingredient_id') (Ingredients conn)\<rparr>))"

subsection \<open>gui.py: the callbacks that reach the store\<close>

text \<open>
  Message boxes and the display-only \<^verbatim>\<open>StringVar\<close>s are left out. A numeric entry
  is the value \<^verbatim>\<open>float()\<close> reads from it, or \<^verbatim>\<open>None\<close> where \<^verbatim>\<open>float()\<close>
  raises \<^verbatim>\<open>ValueError\<close>; a text entry is the text after \<^verbatim>\<open>.strip()\<close>.
\<close>

text \<open>
  What \<^verbatim>\<open>output_cost_var\<close> holds: \<^verbatim>\<open>"Final Cost: $0.00"\<close> (set by the
  constructor and by \<^verbatim>\<open>_on_recipe_select\<close>), or \<^verbatim>\<open>"Final Estimated Cost: $"\<close>
  followed by an amount with two decimals, kept here as a whole number of hundredths.
\<close>

datatype cost_text = Final_Cost_zero | Final_Estimated_Cost int

record app =
  current_recipe_id :: "int option"
  current_recipe_volume :: "real option"
  recipe_var :: string
  volume_entry :: "real option"
  output_cost_var :: cost_text
  scaled_ingredients :: "item list option"

text \<open>
  \<^verbatim>\<open>BreweryApp._scale_and_cost\<close>. Both \<^verbatim>\<open>except\<close> clauses only show a message
  box, so every failure leaves the application as it was.
\<close>

definition BreweryApp_scale_and_cost :: "app \<Rightarrow> world \<Rightarrow> app \<times> world" where
  "BreweryApp_scale_and_cost self w =
     (case current_recipe_id self of
        None \<Rightarrow> (self, w)
      | Some rid \<Rightarrow>
          if rid = 0 then (self, w)
          else
            (case volume_entry self of
               None \<Rightarrow> (self, w)
             | Some new_volume \<Rightarrow>
                 if new_volume \<le> MIN_VOLUME_BBL then (self, w)
                 else
                   (case current_recipe_volume self of
                      None \<Rightarrow> (self, w)
                    | Some original_volume \<Rightarrow>
                        (case scale_recipe rid original_volume new_volume w of
                           (Inl e, w1) \<Rightarrow> (self, w1)
                         | (Inr (scaled, scale_factor), w1) \<Rightarrow>
                             (case calculate_recipe_cost scaled w1 of
                                (Inl e, w2) \<Rightarrow> (self, w2)
                              | (Inr total_cost, w2) \<Rightarrow>
                                  (let cost_with_markup = total_cost * COST_MARKUP in
                                   (self\<lparr>output_cost_var :=
                                            Final_Estimated_Cost (format_2f cost_with_markup),
                                          scaled_ingredients := Some scaled\<rparr>,
                                    w2)))))))"

text \<open>
  \<^verbatim>\<open>BreweryApp._log_batch\<close>. Nothing catches the \<^verbatim>\<open>ValueError\<close> of its two
  \<^verbatim>\<open>float()\<close> calls. The inner result is \<^verbatim>\<open>None\<close> when the callback returns
  before it reaches the service.
\<close>

definition BreweryApp_log_batch ::
  "string \<Rightarrow> app \<Rightarrow> world \<Rightarrow> (error + (bool \<times> message) option) \<times> world" where
  "BreweryApp_log_batch date_str self w =
     (case scaled_ingredients self of
        None \<Rightarrow> (Inr None, w)
      | Some scaled \<Rightarrow>
          (case volume_entry self of
             None \<Rightarrow> (Inl ValueError, w)
           | Some volume \<Rightarrow>
               (case output_cost_var self of
                  Final_Cost_zero \<Rightarrow> (Inl ValueError, w)
                | Final_Estimated_Cost hundredths \<Rightarrow>
                    (let final_cost' = of_int hundredths / 100 in
                     case calculate_and_log_batch (recipe_var self) volume final_cost'
                            date_str scaled w of
                       (Inl e, w') \<Rightarrow> (Inl e, w')
                     | (Inr r, w') \<Rightarrow> (Inr (Some r), w')))))"

text \<open>
  \<^verbatim>\<open>AddDialog._save_ingredient\<close>; \<open>ing_type'\<close> is the entry after
  \<^verbatim>\<open>.lower().capitalize()\<close>, which keeps an empty text empty.
\<close>

definition AddDialog_save_ingredient ::
  "string \<Rightarrow> real option \<Rightarrow> string \<Rightarrow> string \<Rightarrow> real option \<Rightarrow> real option
     \<Rightarrow> world \<Rightarrow> world" where
  "AddDialog_save_ingredient name cost_entry unit' ing_type' detail_entry qty_entry w =
     (case cost_entry of
        None \<Rightarrow> w
      | Some cost' \<Rightarrow>
          (case detail_entry of
             None \<Rightarrow> w
           | Some detail \<Rightarrow>
               (case qty_entry of
                  None \<Rightarrow> w
                | Some qty \<Rightarrow>
                    if name = [] \<or> unit' = [] \<or> ing_type' = [] then w
                    else if cost' \<le> 0 \<or> qty < 0 then w
                    else if ing_type' \<notin> set [''Fermentable'', ''Hop'', ''Other''] then w
                    else
                      (case connect_db w of
                         None \<Rightarrow> w
                       | Some conn \<Rightarrow>
                           w\<lparr>db_file :=
                               snd (add_ingredient conn name ing_type' cost' detail
                                      unit' qty)\<rparr>))))"

text \<open>
  \<^verbatim>\<open>EditDialog._update_ingredient\<close>:
  \<^verbatim>\<open>UPDATE Ingredients SET cost = ? WHERE id = ?\<close>, then
  \<^verbatim>\<open>db.update_inventory_qty\<close>.
\<close>

definition EditDialog_update_ingredient ::
  "int \<Rightarrow> real option \<Rightarrow> real option \<Rightarrow> world \<Rightarrow> world" where
  "EditDialog_update_ingredient ing_id' cost_entry delta_entry w =
     (case cost_entry of
        None \<Rightarrow> w
      | Some new_cost \<Rightarrow>
          (case delta_entry of
             None \<Rightarrow> w
           | Some delta_qty \<Rightarrow>
               if new_cost \<le> 0 then w
               else
                 (case connect_db w of
                    None \<Rightarrow> w
                  | Some conn \<Rightarrow>
                      (let conn1 = conn\<lparr>Ingredients :=
                             map (\<lambda>r. if ing_id r = ing_id' then r\<lparr>ing_cost := new_cost\<rparr>
                                       else r)
                                 (Ingredients conn)\<rparr>
                       in w\<lparr>db_file :=
                              snd (update_inventory_qty conn1 ing_id' delta_qty)\<rparr>))))"

text \<open>
  \<^verbatim>\<open>BreweryApp._delete_selected_ingredient\<close>, once the user has confirmed; the
  \<^verbatim>\<open>IntegrityError\<close> is caught and shown.
\<close>

definition BreweryApp_delete_selected_ingredient :: "int \<Rightarrow> world \<Rightarrow> world" where
  "BreweryApp_delete_selected_ingredient ing_id' w =
     (case connect_db w of
        None \<Rightarrow> w
      | Some conn \<Rightarrow>
          (case delete_ingredient conn ing_id' of
             Inl e \<Rightarrow> w
           | Inr (rows_deleted, conn') \<Rightarrow> w\<lparr>db_file := conn'\<rparr>))"

subsection \<open>The operations of the running system\<close>

text \<open>
  The three services, the stock adjustment of the gateway, and the three dialogs that
  write the Ingredients table. \<open>run\<close> gives the world an operation leaves behind,
  whatever it returned or raised. Start-up (\<^verbatim>\<open>create_tables\<close>,
  \<^verbatim>\<open>seed_initial_data\<close>) is not among them: it runs once, before the first
  operation, and stocks every ingredient it inserts with 10 or 20.
\<close>

datatype operation =
    Scale_recipe int real real
  | Calculate_recipe_cost "item list"
  | Calculate_and_log_batch string real real string "item list"
  | Update_inventory_qty int real
  | Save_ingredient string "real option" string string "real option" "real option"
  | Update_ingredient int "real option" "real option"
  | Delete_selected_ingredient int

fun run :: "operation \<Rightarrow> world \<Rightarrow> world" where
  "run (Scale_recipe rid original_volume new_volume) w =
     snd (scale_recipe rid original_volume new_volume w)"
| "run (Calculate_recipe_cost ingredient_list) w =
     snd (calculate_recipe_cost ingredient_list w)"
| "run (Calculate_and_log_batch name volume final_cost' date_str ingredient_list) w =
     snd (calculate_and_log_batch name volume final_cost' date_str ingredient_list w)"
| "run (Update_inventory_qty ing_id' delta_qty) w =
     (case connect_db w of
        None \<Rightarrow> w
      | Some conn \<Rightarrow> w\<lparr>db_file := snd (update_inventory_qty conn ing_id' delta_qty)\<rparr>)"
| "run (Save_ingredient name cost_entry unit' ing_type' detail_entry qty_entry) w =
     AddDialog_save_ingredient name cost_entry unit' ing_type' detail_entry qty_entry w"
| "run (Update_ingredient ing_id' cost_entry delta_entry) w =
     EditDialog_update_ingredient ing_id' cost_entry delta_entry w"
| "run (Delete_selected_ingredient ing_id') w =
     BreweryApp_delete_selected_ingredient ing_id' w"

text \<open>Every ingredient's on-hand quantity is at least zero.\<close>

definition stock_nonneg :: "world \<Rightarrow> bool" where
  "stock_nonneg w = list_all (\<lambda>r. 0 \<le> inventory_qty r) (Ingredients (db_file w))"

subsection \<open>Vocabulary of the specification\<close>

text \<open>
  These four follow the words of the specification, not the source: the unit cost the
  gateway holds for an item's ingredient, whether the gateway knows the ingredient at
  all, whether the item's requirement exceeds the on-hand quantity, and whether the
  on-hand quantity covers it.
\<close>

definition unit_cost :: "world \<Rightarrow> item \<Rightarrow> real" where
  "unit_cost w i =
     (case fetch_ingredient (db_file w) (item_id i) of None \<Rightarrow> 0 | Some r \<Rightarrow> ing_cost r)"

definition known :: "world \<Rightarrow> item \<Rightarrow> bool" where
  "known w i = (fetch_ingredient (db_file w) (item_id i) \<noteq> None)"

definition short :: "world \<Rightarrow> item \<Rightarrow> bool" where
  "short w i =
     (case fetch_ingredient (db_file w) (item_id i) of
        None \<Rightarrow> False
      | Some r \<Rightarrow> inventory_qty r < item_quantity i)"

definition covered :: "world \<Rightarrow> item \<Rightarrow> bool" where
  "covered w i =
     (case fetch_ingredient (db_file w) (item_id i) of
        None \<Rightarrow> False
      | Some r \<Rightarrow> item_quantity i \<le> inventory_qty r)"

subsection \<open>A sample store\<close>

text \<open>
  Part of what \<^verbatim>\<open>seed_initial_data\<close> leaves behind: the first recipe of
  \<^verbatim>\<open>create_initial_recipes\<close> (Bohemian Pilsner, 15 BBL) with its three
  ingredients, under the ids the seeding gives them. The three stock levels are
  parameters; the seeding itself sets them to 10, 10 and 20.
\<close>

definition sample_world :: "real \<Rightarrow> real \<Rightarrow> real \<Rightarrow> world" where
  "sample_world malt hops yeast =
     \<lparr>db_available = True,
      db_file =
        \<lparr>Ingredients =
           [\<lparr>ing_id = 1, ing_name = ''Pilsner Malt'', ing_type = ''Fermentable'',
             ing_cost = 1, detail1 = 2, ing_unit = ''lb'', inventory_qty = malt\<rparr>,
            \<lparr>ing_id = 11, ing_name = ''Saaz Hops'', ing_type = ''Hop'',
             ing_cost = 1 / 2, detail1 = 3, ing_unit = ''oz'', inventory_qty = hops\<rparr>,
            \<lparr>ing_id = 19, ing_name = ''Lager Yeast'', ing_type = ''Base'',
             ing_cost = 11 / 2, detail1 = 0, ing_unit = ''packet'',
             inventory_qty = yeast\<rparr>],
         Recipe_Details =
           [\<lparr>recipe_id = 1, ingredient_id = 1, quantity = 600\<rparr>,
            \<lparr>recipe_id = 1, ingredient_id = 11, quantity = 15\<rparr>,
            \<lparr>recipe_id = 1, ingredient_id = 19, quantity = 4\<rparr>],
         Batch_Log = []\<rparr>\<rparr>"

text \<open>The items \<^verbatim>\<open>scale_recipe\<close> builds for that recipe, by their quantities.\<close>

definition sample_items :: "real \<Rightarrow> real \<Rightarrow> real \<Rightarrow> item list" where
  "sample_items malt hops yeast =
     [\<lparr>item_id = 1, item_name = ''Pilsner Malt'', item_quantity = malt, item_unit = ''lb''\<rparr>,
      \<lparr>item_id = 11, item_name = ''Saaz Hops'', item_quantity = hops, item_unit = ''oz''\<rparr>,
      \<lparr>item_id = 19, item_name = ''Lager Yeast'', item_quantity = yeast,
       item_unit = ''packet''\<rparr>]"

text \<open>An item that names an ingredient the sample store does not hold.\<close>

definition oak_chips :: item where
  "oak_chips = \<lparr>item_id = 99, item_name = ''Oak Chips'', item_quantity = 1, item_unit = ''oz''\<rparr>"

text \<open>
  The application after the user picked that recipe in the menu and typed a volume:
  what \<^verbatim>\<open>_on_recipe_select\<close> leaves, with the entry's value.
\<close>

definition sample_app :: "real \<Rightarrow> app" where
  "sample_app v =
     \<lparr>current_recipe_id = Some 1, current_recipe_volume = Some 15,
      recipe_var = ''Bohemian Pilsner'', volume_entry = Some v,
      output_cost_var = Final_Cost_zero, scaled_ingredients = None\<rparr>"

section \<open>Properties\<close>

subsection \<open>The cost recursion\<close>

declare calculate_recipe_cost.simps [simp del]

lemma calculate_recipe_cost_Cons:
  "calculate_recipe_cost (head_ingredient # tail) w =
     (case connect_db w of
        None \<Rightarrow> (Inr 0, w)
      | Some conn \<Rightarrow>
          (case fetch_ingredient conn (item_id head_ingredient) of
             None \<Rightarrow> (Inl TypeError, w)
           | Some r \<Rightarrow>
               (case calculate_recipe_cost tail w of
                  (Inl e, w') \<Rightarrow> (Inl e, w')
                | (Inr rest, w') \<Rightarrow>
                    (Inr (ing_cost r * item_quantity head_ingredient + rest), w'))))"
  by (subst calculate_recipe_cost.simps)
     (simp add: Let_def split: option.splits prod.splits sum.splits)

lemma calculate_recipe_cost_Nil: "calculate_recipe_cost [] w = (Inr 0, w)"
  by (subst calculate_recipe_cost.simps) simp

lemma calculate_recipe_cost_world: "snd (calculate_recipe_cost items w) = w"
  by (induction items)
     (auto simp: calculate_recipe_cost_Nil calculate_recipe_cost_Cons
           split: option.splits prod.splits sum.splits)

lemma calculate_recipe_cost_unavailable:
  "\<not> db_available w \<Longrightarrow> calculate_recipe_cost items w = (Inr 0, w)"
  by (cases items)
     (simp_all add: calculate_recipe_cost_Nil calculate_recipe_cost_Cons connect_db_def)

lemma calculate_recipe_cost_known:
  "db_available w \<Longrightarrow> list_all (known w) items \<Longrightarrow>
   calculate_recipe_cost items w =
     (Inr (\<Sum>i\<leftarrow>items. unit_cost w i * item_quantity i), w)"
  by (induction items)
     (auto simp: calculate_recipe_cost_Nil calculate_recipe_cost_Cons connect_db_def
                 known_def unit_cost_def
           split: option.splits)

lemma calculate_recipe_cost_unknown:
  "db_available w \<Longrightarrow> \<not> list_all (known w) items \<Longrightarrow>
   calculate_recipe_cost items w = (Inl TypeError, w)"
proof (induction items)
  case Nil
  then show ?case by simp
next
  case (Cons i items)
  show ?case
  proof (cases "list_all (known w) items")
    case True
    with Cons.prems have "\<not> known w i" by simp
    then have "fetch_ingredient (db_file w) (item_id i) = None"
      by (simp add: known_def)
    with Cons.prems show ?thesis
      by (simp add: calculate_recipe_cost_Cons connect_db_def)
  next
    case False
    with Cons have "calculate_recipe_cost items w = (Inl TypeError, w)" by simp
    with Cons.prems show ?thesis
      by (simp add: calculate_recipe_cost_Cons connect_db_def split: option.splits)
  qed
qed

lemma calculate_recipe_cost_mset:
  assumes "mset items' = mset items"
  shows "calculate_recipe_cost items' w = calculate_recipe_cost items w"
proof (cases "db_available w")
  case False
  then show ?thesis by (simp add: calculate_recipe_cost_unavailable)
next
  case True
  have s: "set items' = set items" using assms by (rule mset_eq_setD)
  have k: "list_all (known w) items' = list_all (known w) items"
    by (simp add: list_all_iff s)
  have "mset (map (\<lambda>i. unit_cost w i * item_quantity i) items')
      = mset (map (\<lambda>i. unit_cost w i * item_quantity i) items)"
    using assms by simp
  then have m: "(\<Sum>i\<leftarrow>items'. unit_cost w i * item_quantity i)
      = (\<Sum>i\<leftarrow>items. unit_cost w i * item_quantity i)"
    by (metis sum_mset_sum_list)
  show ?thesis
  proof (cases "list_all (known w) items")
    case True
    with \<open>db_available w\<close> k m show ?thesis by (simp add: calculate_recipe_cost_known)
  next
    case False
    with \<open>db_available w\<close> k show ?thesis by (simp add: calculate_recipe_cost_unknown)
  qed
qed

lemma scale_loop_error: "scale_loop conn sf rows acc = Inl e \<Longrightarrow> e = TypeError"
  by (induction conn sf rows acc rule: scale_loop.induct) (auto split: option.splits)

lemma scale_recipe_world: "snd (scale_recipe rid ov nv w) = w"
  by (simp add: scale_recipe_def Let_def split: option.splits sum.splits)

lemma covered_iff: "covered w i \<longleftrightarrow> known w i \<and> \<not> short w i"
  by (auto simp: covered_def known_def short_def split: option.splits)

lemma check_inventory_at_short:
  assumes "list_all (covered w) before" and "short w ing"
  shows "\<exists>r. fetch_ingredient (db_file w) (item_id ing) = Some r \<and>
             inventory_qty r < item_quantity ing \<and>
             check_inventory (db_file w) (before @ ing # after) =
               Inr (Some (Insufficient_inventory (item_name ing)
                            (format_2f (item_quantity ing)) (format_2f (inventory_qty r))))"
  using assms
proof (induction before)
  case Nil
  then obtain r where "fetch_ingredient (db_file w) (item_id ing) = Some r"
    and "inventory_qty r < item_quantity ing"
    by (auto simp: short_def split: option.splits)
  then show ?case by simp
next
  case (Cons i before)
  from Cons.prems obtain r where "fetch_ingredient (db_file w) (item_id i) = Some r"
    and "\<not> inventory_qty r < item_quantity i"
    by (auto simp: covered_def split: option.splits)
  with Cons show ?case by simp
qed

lemma first_short_split:
  assumes "\<exists>i \<in> set items. short w i"
  shows "\<exists>ing after. items = takeWhile (\<lambda>i. \<not> short w i) items @ ing # after \<and> short w ing"
proof -
  let ?P = "\<lambda>i. \<not> short w i"
  from assms have "dropWhile ?P items \<noteq> []" by (auto simp: dropWhile_eq_Nil_conv)
  then obtain ing after where d: "dropWhile ?P items = ing # after"
    by (cases "dropWhile ?P items") auto
  then have "short w ing" using hd_dropWhile [of ?P items] by auto
  moreover have "items = takeWhile ?P items @ ing # after"
    using takeWhile_dropWhile_id [of ?P items] d by simp
  ultimately show ?thesis by blast
qed

lemma check_inventory_covered:
  "list_all (covered w) items \<Longrightarrow> check_inventory (db_file w) items = Inr None"
  by (induction items) (auto simp: covered_def split: option.splits)

lemma check_inventory_known:
  "list_all (known w) items \<Longrightarrow> \<exists>m. check_inventory (db_file w) items = Inr m"
  by (induction items) (auto simp: known_def Let_def)

lemma fetch_update_inventory_qty:
  "fetch_ingredient (snd (update_inventory_qty conn j delta)) i =
     (if i = j
      then map_option (\<lambda>r. r\<lparr>inventory_qty := max 0 (inventory_qty r + delta)\<rparr>)
             (fetch_ingredient conn i)
      else fetch_ingredient conn i)"
proof -
  have h: "find (\<lambda>r. ing_id r = i)
          (map (\<lambda>r. if ing_id r = j
                     then r\<lparr>inventory_qty := max 0 (inventory_qty r + delta)\<rparr> else r) rows) =
        (if i = j
         then map_option (\<lambda>r. r\<lparr>inventory_qty := max 0 (inventory_qty r + delta)\<rparr>)
                (find (\<lambda>r. ing_id r = i) rows)
         else find (\<lambda>r. ing_id r = i) rows)" for rows
    by (induction rows) auto
  have e: "Ingredients (snd (update_inventory_qty conn j delta)) =
      map (\<lambda>r. if ing_id r = j
                 then r\<lparr>inventory_qty := max 0 (inventory_qty r + delta)\<rparr> else r)
          (Ingredients conn)"
    by (simp add: update_inventory_qty_def)
  show ?thesis
    unfolding fetch_ingredient_def e by (rule h)
qed

lemma update_inventory_qty_other_tables:
  "Recipe_Details (snd (update_inventory_qty conn j delta)) = Recipe_Details conn"
  "Batch_Log (snd (update_inventory_qty conn j delta)) = Batch_Log conn"
  "map ing_id (Ingredients (snd (update_inventory_qty conn j delta))) = map ing_id (Ingredients conn)"
  by (simp_all add: update_inventory_qty_def comp_def if_distrib cong: if_cong)

lemma consume_inventory_other_tables:
  "Recipe_Details (consume_inventory conn items) = Recipe_Details conn \<and>
   Batch_Log (consume_inventory conn items) = Batch_Log conn \<and>
   map ing_id (Ingredients (consume_inventory conn items)) = map ing_id (Ingredients conn)"
  by (induction items arbitrary: conn) (simp_all add: update_inventory_qty_other_tables)

lemma consume_inventory_untouched:
  "i \<notin> item_id ` set items \<Longrightarrow>
   fetch_ingredient (consume_inventory conn items) i = fetch_ingredient conn i"
  by (induction items arbitrary: conn) (auto simp: fetch_update_inventory_qty)

lemma consume_inventory_touched:
  assumes "distinct (map item_id items)" and "ing \<in> set items"
    and "fetch_ingredient conn (item_id ing) = Some r"
  shows "fetch_ingredient (consume_inventory conn items) (item_id ing) =
           Some (r\<lparr>inventory_qty := max 0 (inventory_qty r - item_quantity ing)\<rparr>)"
  using assms
proof (induction items arbitrary: conn)
  case Nil
  then show ?case by simp
next
  case (Cons a items)
  show ?case
  proof (cases "item_id a = item_id ing")
    case True
    with Cons.prems have notin: "item_id ing \<notin> item_id ` set items" by auto
    from Cons.prems True have "a = ing" by force
    with notin Cons.prems(3) show ?thesis
      by (simp add: consume_inventory_untouched fetch_update_inventory_qty)
  next
    case False
    with Cons.prems have "ing \<in> set items" "distinct (map item_id items)" by auto
    moreover have "fetch_ingredient
        (snd (update_inventory_qty conn (item_id a) (- item_quantity a))) (item_id ing) = Some r"
      using False Cons.prems(3) by (simp add: fetch_update_inventory_qty)
    ultimately show ?thesis using Cons.IH by simp
  qed
qed

subsection \<open>The batch log and the commit\<close>

lemma log_batch_tables:
  "Ingredients (snd (log_batch conn n v c d)) = Ingredients conn"
  "Recipe_Details (snd (log_batch conn n v c d)) = Recipe_Details conn"
  "Batch_Log (snd (log_batch conn n v c d)) = Batch_Log conn @
     [\<lparr>batch_id = next_rowid (map batch_id (Batch_Log conn)), recipe_name = n,
       volume_BBL = v, final_cost = c, date_brewed = d\<rparr>]"
  by (simp_all add: log_batch_def Let_def)

lemma fetch_log_batch:
  "fetch_ingredient (snd (log_batch conn n v c d)) i = fetch_ingredient conn i"
  by (simp add: fetch_ingredient_def log_batch_tables)

lemma calculate_and_log_batch_covered:
  assumes "db_available w" and "list_all (covered w) ingredient_list"
  shows "calculate_and_log_batch name volume cost date_str ingredient_list w =
           (Inr (True, Batch_logged),
            w\<lparr>db_file := snd (log_batch (consume_inventory (db_file w) ingredient_list)
                                 name volume cost date_str)\<rparr>)"
  using assms
  by (simp add: calculate_and_log_batch_def connect_db_def check_inventory_covered)

lemma calculate_and_log_batch_logged:
  assumes "calculate_and_log_batch name volume cost date_str items w = (Inr (True, m), w')"
  shows "Batch_Log (db_file w') = Batch_Log (db_file w) @
     [\<lparr>batch_id = next_rowid (map batch_id (Batch_Log (db_file w))), recipe_name = name,
       volume_BBL = volume, final_cost = cost, date_brewed = date_str\<rparr>]"
  using assms
  by (auto simp: calculate_and_log_batch_def connect_db_def Let_def log_batch_tables
        consume_inventory_other_tables
      split: option.splits sum.splits if_splits)

lemma calculate_and_log_batch_unavailable:
  "\<not> db_available w \<Longrightarrow>
   calculate_and_log_batch name volume cost date_str items w =
     (Inr (False, Connection_failed), w)"
  by (simp add: calculate_and_log_batch_def connect_db_def)

lemma check_inventory_unknown:
  "list_all (covered w) before \<Longrightarrow> \<not> known w ing \<Longrightarrow>
   check_inventory (db_file w) (before @ ing # after) = Inl TypeError"
  by (induction before) (auto simp: covered_def known_def split: option.splits)

subsection \<open>Scaling\<close>

lemma scale_recipe_unavailable:
  "\<not> db_available w \<Longrightarrow>
   scale_recipe rid original_volume new_volume w =
     (if original_volume \<le> MIN_VOLUME_BBL \<or> new_volume \<le> MIN_VOLUME_BBL
      then Inl ValueError else Inr ([], 0), w)"
  by (simp add: scale_recipe_def connect_db_def)

lemma scale_recipe_Inr_volume:
  "scale_recipe rid ov nv w = (Inr r, w') \<Longrightarrow> MIN_VOLUME_BBL < nv \<and> MIN_VOLUME_BBL < ov"
  by (auto simp: scale_recipe_def split: if_splits)

lemma scale_loop_items:
  assumes "list_all (\<lambda>(i, q). fetch_ingredient conn i \<noteq> None) rows"
  shows "\<exists>scaled. scale_loop conn sf rows acc = Inr (acc @ scaled) \<and>
           list_all2 (\<lambda>(i, q) it. \<exists>r. fetch_ingredient conn i = Some r \<and>
                        it = \<lparr>item_id = i, item_name = ing_name r,
                               item_quantity = q * sf, item_unit = ing_unit r\<rparr>)
             rows scaled"
  using assms
proof (induction rows arbitrary: acc)
  case Nil
  then show ?case by simp
next
  case (Cons row rows)
  obtain i q where row: "row = (i, q)" by (cases row)
  with Cons.prems obtain r where r: "fetch_ingredient conn i = Some r" by auto
  let ?it = "\<lparr>item_id = i, item_name = ing_name r, item_quantity = q * sf,
               item_unit = ing_unit r\<rparr>"
  from Cons.prems have "list_all (\<lambda>(i, q). fetch_ingredient conn i \<noteq> None) rows" by simp
  from Cons.IH [OF this, of "acc @ [?it]"] obtain scaled where
    s: "scale_loop conn sf rows (acc @ [?it]) = Inr ((acc @ [?it]) @ scaled)" and
    l: "list_all2 (\<lambda>(i, q) it. \<exists>r. fetch_ingredient conn i = Some r \<and>
                        it = \<lparr>item_id = i, item_name = ing_name r,
                               item_quantity = q * sf, item_unit = ing_unit r\<rparr>)
             rows scaled"
    by blast
  have "scale_loop conn sf (row # rows) acc = Inr (acc @ ?it # scaled)"
    using row r s by simp
  moreover have "list_all2 (\<lambda>(i, q) it. \<exists>r. fetch_ingredient conn i = Some r \<and>
                        it = \<lparr>item_id = i, item_name = ing_name r,
                               item_quantity = q * sf, item_unit = ing_unit r\<rparr>)
             (row # rows) (?it # scaled)"
    using row r l by simp
  ultimately show ?case by blast
qed

subsection \<open>Stock never below zero\<close>

lemma update_inventory_qty_nonneg:
  "list_all (\<lambda>r. 0 \<le> inventory_qty r) (Ingredients conn) \<Longrightarrow>
   list_all (\<lambda>r. 0 \<le> inventory_qty r) (Ingredients (snd (update_inventory_qty conn i delta)))"
  by (auto simp: update_inventory_qty_def list_all_iff)

lemma consume_inventory_nonneg:
  "list_all (\<lambda>r. 0 \<le> inventory_qty r) (Ingredients conn) \<Longrightarrow>
   list_all (\<lambda>r. 0 \<le> inventory_qty r) (Ingredients (consume_inventory conn items))"
  by (induction items arbitrary: conn) (simp_all add: update_inventory_qty_nonneg)

lemma calculate_and_log_batch_nonneg:
  "stock_nonneg w \<Longrightarrow>
   stock_nonneg (snd (calculate_and_log_batch name volume cost date_str items w))"
  by (auto simp: calculate_and_log_batch_def stock_nonneg_def connect_db_def Let_def
        log_batch_tables consume_inventory_nonneg
      split: option.splits sum.splits)

lemma save_ingredient_nonneg:
  "stock_nonneg w \<Longrightarrow>
   stock_nonneg (AddDialog_save_ingredient name cost_entry unit' ing_type' detail_entry
                   qty_entry w)"
  by (auto simp: AddDialog_save_ingredient_def stock_nonneg_def connect_db_def
        add_ingredient_def Let_def
      split: option.splits)

lemma update_ingredient_nonneg:
  "stock_nonneg w \<Longrightarrow> stock_nonneg (EditDialog_update_ingredient i cost_entry delta_entry w)"
  by (auto simp: EditDialog_update_ingredient_def stock_nonneg_def connect_db_def Let_def
        update_inventory_qty_def list_all_iff
      split: option.splits)

lemma delete_selected_ingredient_nonneg:
  "stock_nonneg w \<Longrightarrow> stock_nonneg (BreweryApp_delete_selected_ingredient i w)"
  by (auto simp: BreweryApp_delete_selected_ingredient_def stock_nonneg_def connect_db_def
        delete_ingredient_def list_all_iff
      split: option.splits sum.splits if_splits)

lemma run_nonneg: "stock_nonneg w \<Longrightarrow> stock_nonneg (run operation w)"
proof (cases operation)
  case (Scale_recipe rid ov nv)
  then show "stock_nonneg w \<Longrightarrow> ?thesis" by (simp add: scale_recipe_world)
next
  case (Calculate_recipe_cost items)
  then show "stock_nonneg w \<Longrightarrow> ?thesis" by (simp add: calculate_recipe_cost_world)
next
  case (Calculate_and_log_batch n v c d items)
  then show "stock_nonneg w \<Longrightarrow> ?thesis" by (simp add: calculate_and_log_batch_nonneg)
next
  case (Update_inventory_qty i delta)
  then show "stock_nonneg w \<Longrightarrow> ?thesis"
    using update_inventory_qty_nonneg [of "db_file w" i delta]
    by (simp add: stock_nonneg_def connect_db_def)
next
  case (Save_ingredient n c u t d q)
  then show "stock_nonneg w \<Longrightarrow> ?thesis" by (simp add: save_ingredient_nonneg)
next
  case (Update_ingredient i c d)
  then show "stock_nonneg w \<Longrightarrow> ?thesis" by (simp add: update_ingredient_nonneg)
next
  case (Delete_selected_ingredient i)
  then show "stock_nonneg w \<Longrightarrow> ?thesis" by (simp add: delete_selected_ingredient_nonneg)
qed

lemma fold_run_nonneg: "stock_nonneg w \<Longrightarrow> stock_nonneg (fold run operations w)"
  by (induction operations arbitrary: w) (simp_all add: run_nonneg)

subsection \<open>The two callbacks of the scaling tab\<close>

lemma format_2f_near: "\<bar>of_int (format_2f x) / 100 - x\<bar> \<le> 1 / 200"
proof -
  have a: "of_int \<lfloor>x * 100\<rfloor> \<le> x * 100" by (rule of_int_floor_le)
  have b: "x * 100 < of_int \<lfloor>x * 100\<rfloor> + 1" by linarith
  show ?thesis
    using a b unfolding format_2f_def Let_def
    by (auto simp: abs_le_iff field_simps)
qed

lemma BreweryApp_scale_and_cost_shown:
  assumes "current_recipe_id self = Some rid" and "rid \<noteq> 0"
    and "volume_entry self = Some new_volume"
    and "current_recipe_volume self = Some original_volume"
    and "scale_recipe rid original_volume new_volume w = (Inr (scaled, scale_factor), w)"
    and "calculate_recipe_cost scaled w = (Inr total_cost, w)"
  shows "BreweryApp_scale_and_cost self w =
           (self\<lparr>output_cost_var := Final_Estimated_Cost (format_2f (total_cost * COST_MARKUP)),
                 scaled_ingredients := Some scaled\<rparr>, w)"
proof -
  from scale_recipe_Inr_volume [OF assms(5)] have "\<not> new_volume \<le> MIN_VOLUME_BBL" by simp
  with assms show ?thesis by (simp add: BreweryApp_scale_and_cost_def)
qed

subsection \<open>The sample store\<close>

lemma sample_fetch:
  "fetch_ingredient (db_file (sample_world m h y)) 1 =
     Some \<lparr>ing_id = 1, ing_name = ''Pilsner Malt'', ing_type = ''Fermentable'',
            ing_cost = 1, detail1 = 2, ing_unit = ''lb'', inventory_qty = m\<rparr>"
  "fetch_ingredient (db_file (sample_world m h y)) 11 =
     Some \<lparr>ing_id = 11, ing_name = ''Saaz Hops'', ing_type = ''Hop'',
            ing_cost = 1 / 2, detail1 = 3, ing_unit = ''oz'', inventory_qty = h\<rparr>"
  "fetch_ingredient (db_file (sample_world m h y)) 19 =
     Some \<lparr>ing_id = 19, ing_name = ''Lager Yeast'', ing_type = ''Base'',
            ing_cost = 11 / 2, detail1 = 0, ing_unit = ''packet'', inventory_qty = y\<rparr>"
  by (simp_all add: sample_world_def fetch_ingredient_def)

lemma sample_fetch_absent:
  "fetch_ingredient (db_file (sample_world m h y)) 99 = None"
  by (simp add: sample_world_def fetch_ingredient_def)

lemma sample_short:
  "short (sample_world m h y) \<lparr>item_id = 1, item_name = n, item_quantity = q, item_unit = u\<rparr>
     \<longleftrightarrow> m < q"
  "short (sample_world m h y) \<lparr>item_id = 11, item_name = n, item_quantity = q, item_unit = u\<rparr>
     \<longleftrightarrow> h < q"
  "short (sample_world m h y) \<lparr>item_id = 19, item_name = n, item_quantity = q, item_unit = u\<rparr>
     \<longleftrightarrow> y < q"
  "\<not> short (sample_world m h y) \<lparr>item_id = 99, item_name = n, item_quantity = q, item_unit = u\<rparr>"
  by (simp_all add: short_def sample_fetch sample_fetch_absent)

lemma sample_available: "db_available (sample_world m h y)"
  by (simp add: sample_world_def)

lemma sample_unavailable: "\<not> db_available ((sample_world m h y)\<lparr>db_available := False\<rparr>)"
  by simp

lemma sample_details:
  "select_details (db_file (sample_world m h y)) 1 = [(1, 600), (11, 15), (19, 4)]"
  by (simp add: select_details_def sample_world_def)

lemma sample_scale:
  "scale_recipe 1 15 30 (sample_world m h y) =
     (Inr (sample_items 1200 30 8, 2), sample_world m h y)"
  "scale_recipe 1 15 16 (sample_world m h y) =
     (Inr (sample_items 640 16 (64 / 15), 16 / 15), sample_world m h y)"
  by (simp_all add: scale_recipe_def MIN_VOLUME_BBL_def connect_db_def sample_available
        sample_details sample_fetch sample_items_def)

lemma sample_cost:
  "calculate_recipe_cost (sample_items 1200 30 8) (sample_world m h y) =
     (Inr 1259, sample_world m h y)"
  "calculate_recipe_cost (sample_items 640 16 (64 / 15)) (sample_world m h y) =
     (Inr (10072 / 15), sample_world m h y)"
  by (simp_all add: calculate_recipe_cost_Cons calculate_recipe_cost_Nil connect_db_def
        sample_available sample_fetch sample_items_def)

lemma sample_format:
  "format_2f (1259 * COST_MARKUP) = 144785"
  "format_2f (10072 / 15 * COST_MARKUP) = 77219"
  by (simp_all add: format_2f_def COST_MARKUP_def Let_def)

lemma sample_app_fields:
  "current_recipe_id (sample_app v) = Some 1"
  "volume_entry (sample_app v) = Some v"
  "current_recipe_volume (sample_app v) = Some 15"
  "recipe_var (sample_app v) = ''Bohemian Pilsner''"
  by (simp_all add: sample_app_def)

lemma sample_log_batch:
  assumes "list_all (covered (sample_world m h y)) items"
  shows "BreweryApp_log_batch date_str
      ((sample_app v)\<lparr>output_cost_var := Final_Estimated_Cost c,
                       scaled_ingredients := Some items\<rparr>) (sample_world m h y) =
    (Inr (Some (True, Batch_logged)),
     (sample_world m h y)\<lparr>db_file :=
        snd (log_batch (consume_inventory (db_file (sample_world m h y)) items)
               ''Bohemian Pilsner'' v (of_int c / 100) date_str)\<rparr>)"
  by (simp add: BreweryApp_log_batch_def sample_app_def
        calculate_and_log_batch_covered [OF sample_available assms])

section \<open>The claims\<close>

text \<open>
  C1, as amended. With the gateway open, whenever some item of the list needs strictly
  more than its ingredient has on hand, and every item before the first such item names
  a stored ingredient, \<^verbatim>\<open>calculate_and_log_batch\<close> returns the failure built from
  that first item in list order: its name, and the quantity needed and the quantity on
  hand as the message prints them, with two decimals. The world it leaves is the world
  it found: no stock changed, no batch logged. Items after the first short one are not
  looked at, whether they name a stored ingredient or not.
\<close>

theorem commit_insufficient_stock:
  assumes "db_available w"
    and "\<exists>i \<in> set ingredient_list. short w i"
    and "list_all (known w) (takeWhile (\<lambda>i. \<not> short w i) ingredient_list)"
  shows "\<exists>before ing after r.
           ingredient_list = before @ ing # after \<and>
           list_all (\<lambda>i. \<not> short w i) before \<and>
           fetch_ingredient (db_file w) (item_id ing) = Some r \<and>
           inventory_qty r < item_quantity ing \<and>
           calculate_and_log_batch name volume cost date_str ingredient_list w =
             (Inr (False, Insufficient_inventory (item_name ing)
                            (format_2f (item_quantity ing)) (format_2f (inventory_qty r))),
              w)"
proof -
  let ?before = "takeWhile (\<lambda>i. \<not> short w i) ingredient_list"
  from first_short_split [OF assms(2)] obtain ing after where
    d: "ingredient_list = ?before @ ing # after" and s: "short w ing"
    by blast
  have ns: "list_all (\<lambda>i. \<not> short w i) ?before"
    by (auto simp: list_all_iff dest: set_takeWhileD)
  with assms(3) have c: "list_all (covered w) ?before"
    by (simp add: list_all_iff covered_iff)
  from check_inventory_at_short [OF c s, of after] obtain r where
    f: "fetch_ingredient (db_file w) (item_id ing) = Some r" and
    l: "inventory_qty r < item_quantity ing" and
    k: "check_inventory (db_file w) (?before @ ing # after) =
          Inr (Some (Insufficient_inventory (item_name ing)
                       (format_2f (item_quantity ing)) (format_2f (inventory_qty r))))"
    by blast
  from k d have k': "check_inventory (db_file w) ingredient_list =
          Inr (Some (Insufficient_inventory (item_name ing)
                       (format_2f (item_quantity ing)) (format_2f (inventory_qty r))))"
    by simp
  have "calculate_and_log_batch name volume cost date_str ingredient_list w =
          (Inr (False, Insufficient_inventory (item_name ing)
                         (format_2f (item_quantity ing)) (format_2f (inventory_qty r))), w)"
    using assms(1) k' by (simp add: calculate_and_log_batch_def connect_db_def)
  with d ns f l show ?thesis by blast
qed

theorem commit_insufficient_stock_witness:
  "db_available (sample_world 500 10 20) \<and>
   (\<exists>i \<in> set (rev (sample_items 600 5 4) @ [oak_chips]). short (sample_world 500 10 20) i) \<and>
   list_all (known (sample_world 500 10 20))
     (takeWhile (\<lambda>i. \<not> short (sample_world 500 10 20) i)
        (rev (sample_items 600 5 4) @ [oak_chips])) \<and>
   \<not> known (sample_world 500 10 20) oak_chips \<and>
   (\<exists>before ing after r.
      rev (sample_items 600 5 4) @ [oak_chips] = before @ ing # after \<and>
      list_all (\<lambda>i. \<not> short (sample_world 500 10 20) i) before \<and>
      fetch_ingredient (db_file (sample_world 500 10 20)) (item_id ing) = Some r \<and>
      inventory_qty r < item_quantity ing \<and>
      calculate_and_log_batch ''Bohemian Pilsner'' 15 690 ''2025-01-01 12:00''
          (rev (sample_items 600 5 4) @ [oak_chips]) (sample_world 500 10 20) =
        (Inr (False, Insufficient_inventory (item_name ing)
                       (format_2f (item_quantity ing)) (format_2f (inventory_qty r))),
         sample_world 500 10 20)) \<and>
   calculate_and_log_batch ''Bohemian Pilsner'' 15 690 ''2025-01-01 12:00''
       (rev (sample_items 600 5 4) @ [oak_chips]) (sample_world 500 10 20) =
     (Inr (False, Insufficient_inventory ''Pilsner Malt'' 60000 50000), sample_world 500 10 20)"
proof -
  let ?w = "sample_world 500 10 20"
  let ?items = "rev (sample_items 600 5 4) @ [oak_chips]"
  have a: "db_available ?w" by (rule sample_available)
  have b: "\<exists>i \<in> set ?items. short ?w i"
    by (simp add: sample_items_def oak_chips_def sample_short)
  have tw: "takeWhile (\<lambda>i. \<not> short ?w i) ?items =
      [\<lparr>item_id = 19, item_name = ''Lager Yeast'', item_quantity = 4, item_unit = ''packet''\<rparr>,
       \<lparr>item_id = 11, item_name = ''Saaz Hops'', item_quantity = 5, item_unit = ''oz''\<rparr>]"
    by (simp add: sample_items_def oak_chips_def sample_short)
  have c: "list_all (known ?w) (takeWhile (\<lambda>i. \<not> short ?w i) ?items)"
    unfolding tw by (simp add: known_def sample_fetch)
  have u: "\<not> known ?w oak_chips"
    by (simp add: known_def oak_chips_def sample_fetch_absent)
  note t = commit_insufficient_stock [OF a b c, of "''Bohemian Pilsner''" 15 690
      "''2025-01-01 12:00''"]
  have f: "format_2f 600 = 60000" "format_2f 500 = 50000"
    by (simp_all add: format_2f_def Let_def)
  have e: "calculate_and_log_batch ''Bohemian Pilsner'' 15 690 ''2025-01-01 12:00''
       ?items ?w = (Inr (False, Insufficient_inventory ''Pilsner Malt'' 60000 50000), ?w)"
    by (simp add: calculate_and_log_batch_def connect_db_def sample_available sample_items_def
          oak_chips_def sample_fetch f)
  show ?thesis by (intro conjI a b c u t e)
qed

text \<open>
  C1 as stated fails on two counts. An item that names no stored ingredient, standing
  before the short item, makes the call raise \<^verbatim>\<open>TypeError\<close> instead of returning
  the failure. And the failure carries the two quantities as printed with two decimals:
  600.004 lb needed against 600 lb on hand is reported as 600.00 against 600.00.
\<close>

theorem commit_unknown_before_short_counterexample:
  "db_available (sample_world 500 10 20) \<and>
   short (sample_world 500 10 20)
     \<lparr>item_id = 1, item_name = ''Pilsner Malt'', item_quantity = 600, item_unit = ''lb''\<rparr> \<and>
   calculate_and_log_batch ''Bohemian Pilsner'' 15 690 ''2025-01-01 12:00''
     [oak_chips,
      \<lparr>item_id = 1, item_name = ''Pilsner Malt'', item_quantity = 600, item_unit = ''lb''\<rparr>]
     (sample_world 500 10 20) = (Inl TypeError, sample_world 500 10 20) \<and>
   short (sample_world 600 10 20)
     \<lparr>item_id = 1, item_name = ''Pilsner Malt'', item_quantity = 150001 / 250,
       item_unit = ''lb''\<rparr> \<and>
   calculate_and_log_batch ''Bohemian Pilsner'' 15 690 ''2025-01-01 12:00''
     [\<lparr>item_id = 1, item_name = ''Pilsner Malt'', item_quantity = 150001 / 250,
        item_unit = ''lb''\<rparr>]
     (sample_world 600 10 20) =
     (Inr (False, Insufficient_inventory ''Pilsner Malt'' 60000 60000), sample_world 600 10 20)"
proof (intro conjI)
  show "db_available (sample_world 500 10 20)" by (rule sample_available)
  show "short (sample_world 500 10 20)
     \<lparr>item_id = 1, item_name = ''Pilsner Malt'', item_quantity = 600, item_unit = ''lb''\<rparr>"
    by (simp add: sample_short)
  show "calculate_and_log_batch ''Bohemian Pilsner'' 15 690 ''2025-01-01 12:00''
     [oak_chips,
      \<lparr>item_id = 1, item_name = ''Pilsner Malt'', item_quantity = 600, item_unit = ''lb''\<rparr>]
     (sample_world 500 10 20) = (Inl TypeError, sample_world 500 10 20)"
    by (simp add: calculate_and_log_batch_def connect_db_def sample_available oak_chips_def
          sample_fetch_absent)
  show "short (sample_world 600 10 20)
     \<lparr>item_id = 1, item_name = ''Pilsner Malt'', item_quantity = 150001 / 250,
       item_unit = ''lb''\<rparr>"
    by (simp add: sample_short)
  have f: "format_2f (150001 / 250) = 60000" "format_2f 600 = 60000"
    by (simp_all add: format_2f_def Let_def)
  show "calculate_and_log_batch ''Bohemian Pilsner'' 15 690 ''2025-01-01 12:00''
     [\<lparr>item_id = 1, item_name = ''Pilsner Malt'', item_quantity = 150001 / 250,
        item_unit = ''lb''\<rparr>]
     (sample_world 600 10 20) =
     (Inr (False, Insufficient_inventory ''Pilsner Malt'' 60000 60000), sample_world 600 10 20)"
    by (simp add: calculate_and_log_batch_def connect_db_def sample_available sample_fetch f)
qed

text \<open>
  C2, as amended. With the gateway open, the items naming pairwise distinct stored
  ingredients, and every item needing at most what its ingredient has on hand,
  \<^verbatim>\<open>calculate_and_log_batch\<close> succeeds; every ingredient an item names has its
  on-hand quantity lowered by exactly that item's quantity and nothing else about it
  changed; every other ingredient is as before; and the batch log is the old log
  followed by one record with the given recipe name, volume, final cost and date.
\<close>

theorem commit_success:
  assumes "db_available w"
    and "distinct (map item_id ingredient_list)"
    and "list_all (covered w) ingredient_list"
  shows "\<exists>w'. calculate_and_log_batch name volume cost date_str ingredient_list w =
               (Inr (True, Batch_logged), w') \<and>
           db_available w' \<and>
           Recipe_Details (db_file w') = Recipe_Details (db_file w) \<and>
           map ing_id (Ingredients (db_file w')) = map ing_id (Ingredients (db_file w)) \<and>
           Batch_Log (db_file w') = Batch_Log (db_file w) @
             [\<lparr>batch_id = next_rowid (map batch_id (Batch_Log (db_file w))),
               recipe_name = name, volume_BBL = volume, final_cost = cost,
               date_brewed = date_str\<rparr>] \<and>
           (\<forall>ing \<in> set ingredient_list. \<forall>r.
              fetch_ingredient (db_file w) (item_id ing) = Some r \<longrightarrow>
              fetch_ingredient (db_file w') (item_id ing) =
                Some (r\<lparr>inventory_qty := inventory_qty r - item_quantity ing\<rparr>)) \<and>
           (\<forall>i. i \<notin> item_id ` set ingredient_list \<longrightarrow>
              fetch_ingredient (db_file w') i = fetch_ingredient (db_file w) i)"
proof -
  let ?conn1 = "consume_inventory (db_file w) ingredient_list"
  let ?w' = "w\<lparr>db_file := snd (log_batch ?conn1 name volume cost date_str)\<rparr>"
  have res: "calculate_and_log_batch name volume cost date_str ingredient_list w =
      (Inr (True, Batch_logged), ?w')"
    using assms(1,3) by (rule calculate_and_log_batch_covered)
  have av: "db_available ?w'" using assms(1) by simp
  have rd: "Recipe_Details (db_file ?w') = Recipe_Details (db_file w)"
    by (simp add: log_batch_tables consume_inventory_other_tables)
  have ids: "map ing_id (Ingredients (db_file ?w')) = map ing_id (Ingredients (db_file w))"
    by (simp add: log_batch_tables consume_inventory_other_tables)
  have bl: "Batch_Log (db_file ?w') = Batch_Log (db_file w) @
             [\<lparr>batch_id = next_rowid (map batch_id (Batch_Log (db_file w))),
               recipe_name = name, volume_BBL = volume, final_cost = cost,
               date_brewed = date_str\<rparr>]"
    by (simp add: log_batch_tables consume_inventory_other_tables)
  have touched: "fetch_ingredient (db_file ?w') (item_id ing) =
      Some (r\<lparr>inventory_qty := inventory_qty r - item_quantity ing\<rparr>)"
    if "ing \<in> set ingredient_list" and r: "fetch_ingredient (db_file w) (item_id ing) = Some r"
    for ing r
  proof -
    from assms(3) that(1) have "covered w ing" by (simp add: list_all_iff)
    with r have le: "item_quantity ing \<le> inventory_qty r" by (simp add: covered_def)
    have "fetch_ingredient ?conn1 (item_id ing) =
        Some (r\<lparr>inventory_qty := max 0 (inventory_qty r - item_quantity ing)\<rparr>)"
      using assms(2) that(1) r by (rule consume_inventory_touched)
    moreover from le have "max 0 (inventory_qty r - item_quantity ing) =
        inventory_qty r - item_quantity ing" by simp
    ultimately show ?thesis by (simp add: fetch_log_batch)
  qed
  have untouched: "fetch_ingredient (db_file ?w') i = fetch_ingredient (db_file w) i"
    if "i \<notin> item_id ` set ingredient_list" for i
    using that by (simp add: fetch_log_batch consume_inventory_untouched)
  from res av rd ids bl touched untouched show ?thesis by blast
qed

theorem commit_success_witness:
  "db_available (sample_world 2000 100 20) \<and>
   distinct (map item_id (sample_items 1200 30 8)) \<and>
   list_all (covered (sample_world 2000 100 20)) (sample_items 1200 30 8) \<and>
   (\<exists>w'. calculate_and_log_batch ''Bohemian Pilsner'' 30 (289570 / 200) ''2025-01-01 12:00''
            (sample_items 1200 30 8) (sample_world 2000 100 20) =
            (Inr (True, Batch_logged), w') \<and>
          Batch_Log (db_file w') =
            [\<lparr>batch_id = 1, recipe_name = ''Bohemian Pilsner'', volume_BBL = 30,
              final_cost = 289570 / 200, date_brewed = ''2025-01-01 12:00''\<rparr>] \<and>
          map_option inventory_qty (fetch_ingredient (db_file w') 1) = Some 800 \<and>
          map_option inventory_qty (fetch_ingredient (db_file w') 11) = Some 70 \<and>
          map_option inventory_qty (fetch_ingredient (db_file w') 19) = Some 12)"
proof -
  have a: "db_available (sample_world 2000 100 20)" by (rule sample_available)
  have d: "distinct (map item_id (sample_items 1200 30 8))"
    by (simp add: sample_items_def)
  have c: "list_all (covered (sample_world 2000 100 20)) (sample_items 1200 30 8)"
    by (simp add: covered_def sample_items_def sample_fetch)
  from commit_success [OF a d c, of "''Bohemian Pilsner''" 30 "289570 / 200"
      "''2025-01-01 12:00''"]
  obtain w' where
    r: "calculate_and_log_batch ''Bohemian Pilsner'' 30 (289570 / 200) ''2025-01-01 12:00''
            (sample_items 1200 30 8) (sample_world 2000 100 20) =
            (Inr (True, Batch_logged), w')" and
    bl: "Batch_Log (db_file w') = Batch_Log (db_file (sample_world 2000 100 20)) @
             [\<lparr>batch_id = next_rowid (map batch_id (Batch_Log (db_file (sample_world 2000 100 20)))),
               recipe_name = ''Bohemian Pilsner'', volume_BBL = 30, final_cost = 289570 / 200,
               date_brewed = ''2025-01-01 12:00''\<rparr>]" and
    t: "\<forall>ing \<in> set (sample_items 1200 30 8). \<forall>r.
              fetch_ingredient (db_file (sample_world 2000 100 20)) (item_id ing) = Some r \<longrightarrow>
              fetch_ingredient (db_file w') (item_id ing) =
                Some (r\<lparr>inventory_qty := inventory_qty r - item_quantity ing\<rparr>)"
    by blast
  have bl': "Batch_Log (db_file w') =
            [\<lparr>batch_id = 1, recipe_name = ''Bohemian Pilsner'', volume_BBL = 30,
              final_cost = 289570 / 200, date_brewed = ''2025-01-01 12:00''\<rparr>]"
    unfolding bl by (simp add: sample_world_def next_rowid_def)
  from t have f1: "map_option inventory_qty (fetch_ingredient (db_file w') 1) = Some 800"
    and f2: "map_option inventory_qty (fetch_ingredient (db_file w') 11) = Some 70"
    and f3: "map_option inventory_qty (fetch_ingredient (db_file w') 19) = Some 12"
    by (simp_all add: sample_items_def sample_fetch)
  from r bl' f1 f2 f3 have "\<exists>w'. calculate_and_log_batch ''Bohemian Pilsner'' 30 (289570 / 200) ''2025-01-01 12:00''
            (sample_items 1200 30 8) (sample_world 2000 100 20) =
            (Inr (True, Batch_logged), w') \<and>
          Batch_Log (db_file w') =
            [\<lparr>batch_id = 1, recipe_name = ''Bohemian Pilsner'', volume_BBL = 30,
              final_cost = 289570 / 200, date_brewed = ''2025-01-01 12:00''\<rparr>] \<and>
          map_option inventory_qty (fetch_ingredient (db_file w') 1) = Some 800 \<and>
          map_option inventory_qty (fetch_ingredient (db_file w') 11) = Some 70 \<and>
          map_option inventory_qty (fetch_ingredient (db_file w') 19) = Some 12"
    by blast
  with a d c show ?thesis by (intro conjI)
qed

text \<open>
  C2 as stated fails when two items name the same ingredient: each of two items of 6 lb
  is covered by a stock of 10 lb, the call succeeds, and the stock ends at 0, which is
  neither 10 - 6 nor 10 - 12.
\<close>

theorem commit_duplicate_items_counterexample:
  "list_all (covered (sample_world 10 10 20))
     [\<lparr>item_id = 1, item_name = ''Pilsner Malt'', item_quantity = 6, item_unit = ''lb''\<rparr>,
      \<lparr>item_id = 1, item_name = ''Pilsner Malt'', item_quantity = 6, item_unit = ''lb''\<rparr>] \<and>
   fst (calculate_and_log_batch ''Bohemian Pilsner'' 15 10 ''2025-01-01 12:00''
     [\<lparr>item_id = 1, item_name = ''Pilsner Malt'', item_quantity = 6, item_unit = ''lb''\<rparr>,
      \<lparr>item_id = 1, item_name = ''Pilsner Malt'', item_quantity = 6, item_unit = ''lb''\<rparr>]
     (sample_world 10 10 20)) = Inr (True, Batch_logged) \<and>
   map_option inventory_qty (fetch_ingredient (db_file (sample_world 10 10 20)) 1) = Some 10 \<and>
   map_option inventory_qty (fetch_ingredient (db_file (snd
     (calculate_and_log_batch ''Bohemian Pilsner'' 15 10 ''2025-01-01 12:00''
       [\<lparr>item_id = 1, item_name = ''Pilsner Malt'', item_quantity = 6, item_unit = ''lb''\<rparr>,
        \<lparr>item_id = 1, item_name = ''Pilsner Malt'', item_quantity = 6, item_unit = ''lb''\<rparr>]
       (sample_world 10 10 20)))) 1) = Some 0 \<and>
   (0::real) \<noteq> 10 - 6 \<and> (0::real) \<noteq> 10 - (6 + 6)"
proof -
  let ?items = "[\<lparr>item_id = 1, item_name = ''Pilsner Malt'', item_quantity = 6, item_unit = ''lb''\<rparr>,
      \<lparr>item_id = 1, item_name = ''Pilsner Malt'', item_quantity = 6, item_unit = ''lb''\<rparr>]"
  have c: "list_all (covered (sample_world 10 10 20)) ?items"
    by (simp add: covered_def sample_fetch)
  note r = calculate_and_log_batch_covered [OF sample_available c,
      of "''Bohemian Pilsner''" 15 10 "''2025-01-01 12:00''"]
  have f: "map_option inventory_qty (fetch_ingredient (db_file (snd
     (calculate_and_log_batch ''Bohemian Pilsner'' 15 10 ''2025-01-01 12:00'' ?items
       (sample_world 10 10 20)))) 1) = Some 0"
    unfolding r by (simp add: fetch_log_batch fetch_update_inventory_qty sample_fetch)
  have b: "map_option inventory_qty (fetch_ingredient (db_file (sample_world 10 10 20)) 1) = Some 10"
    by (simp add: sample_fetch)
  have s: "fst (calculate_and_log_batch ''Bohemian Pilsner'' 15 10 ''2025-01-01 12:00'' ?items
     (sample_world 10 10 20)) = Inr (True, Batch_logged)"
    unfolding r by simp
  show ?thesis by (intro conjI c s b f) simp_all
qed

text \<open>
  C3. For both volumes above 0.5, the gateway open and every row of the recipe's
  composition naming a stored ingredient, \<^verbatim>\<open>scale_recipe\<close> returns the scale
  factor \<open>new_volume / original_volume\<close> and, row by row and in the order of the
  rows, an item with the ingredient's id, the name and unit the gateway holds for it at
  that moment, and the base quantity times the scale factor; the world is unchanged.
\<close>

theorem scale_recipe_proportional:
  assumes "MIN_VOLUME_BBL < original_volume"
    and "MIN_VOLUME_BBL < new_volume"
    and "db_available w"
    and "list_all (\<lambda>(i, q). fetch_ingredient (db_file w) i \<noteq> None)
           (select_details (db_file w) rid)"
  shows "\<exists>scaled.
           scale_recipe rid original_volume new_volume w =
             (Inr (scaled, new_volume / original_volume), w) \<and>
           list_all2
             (\<lambda>(i, base_qty) it. \<exists>r.
                fetch_ingredient (db_file w) i = Some r \<and>
                it = \<lparr>item_id = i, item_name = ing_name r,
                       item_quantity = base_qty * (new_volume / original_volume),
                       item_unit = ing_unit r\<rparr>)
             (select_details (db_file w) rid) scaled"
proof -
  from scale_loop_items [OF assms(4), of "new_volume / original_volume" "[]"]
  obtain scaled where
    s: "scale_loop (db_file w) (new_volume / original_volume)
          (select_details (db_file w) rid) [] = Inr scaled" and
    l: "list_all2
             (\<lambda>(i, base_qty) it. \<exists>r.
                fetch_ingredient (db_file w) i = Some r \<and>
                it = \<lparr>item_id = i, item_name = ing_name r,
                       item_quantity = base_qty * (new_volume / original_volume),
                       item_unit = ing_unit r\<rparr>)
             (select_details (db_file w) rid) scaled"
    by auto
  have "scale_recipe rid original_volume new_volume w =
             (Inr (scaled, new_volume / original_volume), w)"
    using assms(1-3) s by (simp add: scale_recipe_def connect_db_def Let_def)
  with l show ?thesis by blast
qed

theorem scale_recipe_proportional_witness:
  "MIN_VOLUME_BBL < 15 \<and> MIN_VOLUME_BBL < 30 \<and>
   db_available (sample_world 10 10 20) \<and>
   list_all (\<lambda>(i, q). fetch_ingredient (db_file (sample_world 10 10 20)) i \<noteq> None)
     (select_details (db_file (sample_world 10 10 20)) 1) \<and>
   (\<exists>scaled.
      scale_recipe 1 15 30 (sample_world 10 10 20) =
        (Inr (scaled, 30 / 15), sample_world 10 10 20) \<and>
      list_all2
        (\<lambda>(i, base_qty) it. \<exists>r.
           fetch_ingredient (db_file (sample_world 10 10 20)) i = Some r \<and>
           it = \<lparr>item_id = i, item_name = ing_name r,
                  item_quantity = base_qty * (30 / 15), item_unit = ing_unit r\<rparr>)
        (select_details (db_file (sample_world 10 10 20)) 1) scaled) \<and>
   scale_recipe 1 15 30 (sample_world 10 10 20) =
     (Inr (sample_items 1200 30 8, 2), sample_world 10 10 20)"
proof -
  have a: "MIN_VOLUME_BBL < 15" and b: "MIN_VOLUME_BBL < 30"
    by (simp_all add: MIN_VOLUME_BBL_def)
  have c: "db_available (sample_world 10 10 20)" by (rule sample_available)
  have d: "list_all (\<lambda>(i, q). fetch_ingredient (db_file (sample_world 10 10 20)) i \<noteq> None)
     (select_details (db_file (sample_world 10 10 20)) 1)"
    by (simp add: sample_details sample_fetch)
  note t = scale_recipe_proportional [OF a b c d]
  have e: "scale_recipe 1 15 30 (sample_world 10 10 20) =
     (Inr (sample_items 1200 30 8, 2), sample_world 10 10 20)"
    by (simp add: scale_recipe_def MIN_VOLUME_BBL_def connect_db_def sample_available
          sample_details sample_fetch sample_items_def)
  show ?thesis by (intro conjI a b c d t e)
qed

text \<open>
  C4. \<^verbatim>\<open>scale_recipe\<close> raises \<^verbatim>\<open>ValueError\<close> exactly when one of the two volumes
  is at or below the threshold 0.5. When it does, the result holds for every world,
  reachable or not: the check comes before the connection is opened, nothing is read
  and nothing is written.
\<close>

theorem scale_recipe_invalid_volume:
  "MIN_VOLUME_BBL = 1 / 2 \<and>
   (original_volume \<le> MIN_VOLUME_BBL \<or> new_volume \<le> MIN_VOLUME_BBL \<longrightarrow>
      scale_recipe rid original_volume new_volume w = (Inl ValueError, w)) \<and>
   (MIN_VOLUME_BBL < original_volume \<and> MIN_VOLUME_BBL < new_volume \<longrightarrow>
      fst (scale_recipe rid original_volume new_volume w) \<noteq> Inl ValueError)"
proof (intro conjI impI)
  show "MIN_VOLUME_BBL = 1 / 2" by (simp add: MIN_VOLUME_BBL_def)
next
  assume "original_volume \<le> MIN_VOLUME_BBL \<or> new_volume \<le> MIN_VOLUME_BBL"
  then show "scale_recipe rid original_volume new_volume w = (Inl ValueError, w)"
    by (simp add: scale_recipe_def)
next
  assume "MIN_VOLUME_BBL < original_volume \<and> MIN_VOLUME_BBL < new_volume"
  then show "fst (scale_recipe rid original_volume new_volume w) \<noteq> Inl ValueError"
    by (auto simp: scale_recipe_def Let_def split: option.splits sum.splits
             dest: scale_loop_error)
qed

theorem scale_recipe_invalid_volume_witness:
  "((15::real) \<le> MIN_VOLUME_BBL \<or> (1 / 2 :: real) \<le> MIN_VOLUME_BBL) \<and>
   scale_recipe 1 15 (1 / 2) (sample_world 10 10 20) = (Inl ValueError, sample_world 10 10 20) \<and>
   MIN_VOLUME_BBL < 15 \<and> MIN_VOLUME_BBL < 30 \<and>
   fst (scale_recipe 1 15 30 (sample_world 10 10 20)) \<noteq> Inl ValueError"
proof -
  have a: "(15::real) \<le> MIN_VOLUME_BBL \<or> (1 / 2 :: real) \<le> MIN_VOLUME_BBL"
    by (simp add: MIN_VOLUME_BBL_def)
  have b: "MIN_VOLUME_BBL < 15 \<and> MIN_VOLUME_BBL < 30"
    by (simp add: MIN_VOLUME_BBL_def)
  from a b
    scale_recipe_invalid_volume [of 15 "1 / 2" 1 "sample_world 10 10 20"]
    scale_recipe_invalid_volume [of 15 30 1 "sample_world 10 10 20"]
  show ?thesis by blast
qed

text \<open>
  C5. \<^verbatim>\<open>calculate_recipe_cost\<close> of the empty list is 0; with the gateway open and
  every item naming a stored ingredient it is the sum, over the items, of the unit cost
  the gateway holds at the call times the item's quantity; and two lists with the same
  items in a different order give the same result (in exact arithmetic).
\<close>

theorem calculate_recipe_cost_sum:
  "calculate_recipe_cost [] w = (Inr 0, w) \<and>
   (db_available w \<and> list_all (known w) ingredient_list \<longrightarrow>
      calculate_recipe_cost ingredient_list w =
        (Inr (\<Sum>i\<leftarrow>ingredient_list. unit_cost w i * item_quantity i), w)) \<and>
   (mset ingredient_list' = mset ingredient_list \<longrightarrow>
      calculate_recipe_cost ingredient_list' w = calculate_recipe_cost ingredient_list w)"
proof (intro conjI impI)
  show "calculate_recipe_cost [] w = (Inr 0, w)"
    by (rule calculate_recipe_cost_Nil)
next
  assume "db_available w \<and> list_all (known w) ingredient_list"
  then show "calculate_recipe_cost ingredient_list w =
      (Inr (\<Sum>i\<leftarrow>ingredient_list. unit_cost w i * item_quantity i), w)"
    by (simp add: calculate_recipe_cost_known)
next
  assume "mset ingredient_list' = mset ingredient_list"
  then show "calculate_recipe_cost ingredient_list' w = calculate_recipe_cost ingredient_list w"
    by (rule calculate_recipe_cost_mset)
qed

theorem calculate_recipe_cost_sum_witness:
  "db_available (sample_world 10 10 20) \<and>
   list_all (known (sample_world 10 10 20)) (sample_items 1200 30 8) \<and>
   mset (rev (sample_items 1200 30 8)) = mset (sample_items 1200 30 8) \<and>
   calculate_recipe_cost (sample_items 1200 30 8) (sample_world 10 10 20) =
     (Inr 1259, sample_world 10 10 20) \<and>
   calculate_recipe_cost (rev (sample_items 1200 30 8)) (sample_world 10 10 20) =
     (Inr 1259, sample_world 10 10 20)"
proof -
  have a: "db_available (sample_world 10 10 20)" by (simp add: sample_world_def)
  have b: "list_all (known (sample_world 10 10 20)) (sample_items 1200 30 8)"
    by (simp add: known_def sample_world_def sample_items_def fetch_ingredient_def)
  have c: "mset (rev (sample_items 1200 30 8)) = mset (sample_items 1200 30 8)" by simp
  have d: "(\<Sum>i\<leftarrow>sample_items 1200 30 8. unit_cost (sample_world 10 10 20) i * item_quantity i)
      = 1259"
    by (simp add: unit_cost_def sample_world_def sample_items_def fetch_ingredient_def)
  note t = calculate_recipe_cost_sum [of "sample_world 10 10 20" "sample_items 1200 30 8"
      "rev (sample_items 1200 30 8)"]
  note e = t [THEN conjunct2, THEN conjunct1, THEN mp, OF conjI, OF a b, unfolded d]
  note f = t [THEN conjunct2, THEN conjunct2, THEN mp, OF c]
  show ?thesis by (intro conjI a b c) (simp_all only: e f)
qed

text \<open>
  C6. \<^verbatim>\<open>update_inventory_qty\<close> sets the on-hand quantity of the ingredient it is
  given to \<open>max 0 (old + delta)\<close> and leaves every other ingredient alone; a negative
  delta larger in magnitude than the stock gives exactly 0; and if every on-hand
  quantity is at least 0, it still is after any operation of the system, and after any
  sequence of them.
\<close>

theorem stock_floor_at_zero:
  "(fetch_ingredient conn i = Some r \<longrightarrow>
      fetch_ingredient (snd (update_inventory_qty conn i delta)) i =
        Some (r\<lparr>inventory_qty := max 0 (inventory_qty r + delta)\<rparr>)) \<and>
   (fetch_ingredient conn i = Some r \<and> delta < 0 \<and> inventory_qty r < - delta \<longrightarrow>
      map_option inventory_qty (fetch_ingredient (snd (update_inventory_qty conn i delta)) i) =
        Some 0) \<and>
   (j \<noteq> i \<longrightarrow>
      fetch_ingredient (snd (update_inventory_qty conn i delta)) j = fetch_ingredient conn j) \<and>
   (stock_nonneg w \<longrightarrow> stock_nonneg (run operation w)) \<and>
   (stock_nonneg w \<longrightarrow> stock_nonneg (fold run operations w))"
proof (intro conjI impI)
  assume "fetch_ingredient conn i = Some r"
  then show "fetch_ingredient (snd (update_inventory_qty conn i delta)) i =
        Some (r\<lparr>inventory_qty := max 0 (inventory_qty r + delta)\<rparr>)"
    by (simp add: fetch_update_inventory_qty)
next
  assume "fetch_ingredient conn i = Some r \<and> delta < 0 \<and> inventory_qty r < - delta"
  then show "map_option inventory_qty
      (fetch_ingredient (snd (update_inventory_qty conn i delta)) i) = Some 0"
    by (simp add: fetch_update_inventory_qty)
next
  assume "j \<noteq> i"
  then show "fetch_ingredient (snd (update_inventory_qty conn i delta)) j =
      fetch_ingredient conn j"
    by (simp add: fetch_update_inventory_qty)
next
  assume "stock_nonneg w"
  then show "stock_nonneg (run operation w)" by (rule run_nonneg)
next
  assume "stock_nonneg w"
  then show "stock_nonneg (fold run operations w)" by (rule fold_run_nonneg)
qed

theorem stock_floor_at_zero_witness:
  "fetch_ingredient (db_file (sample_world 10 10 20)) 1 =
     Some \<lparr>ing_id = 1, ing_name = ''Pilsner Malt'', ing_type = ''Fermentable'',
            ing_cost = 1, detail1 = 2, ing_unit = ''lb'', inventory_qty = 10\<rparr> \<and>
   (- 25 :: real) < 0 \<and> (10 :: real) < - (- 25) \<and> (11 :: int) \<noteq> 1 \<and>
   map_option inventory_qty
     (fetch_ingredient (snd (update_inventory_qty (db_file (sample_world 10 10 20)) 1 (- 25))) 1)
     = Some 0 \<and>
   fetch_ingredient (snd (update_inventory_qty (db_file (sample_world 10 10 20)) 1 (- 25))) 11
     = fetch_ingredient (db_file (sample_world 10 10 20)) 11 \<and>
   stock_nonneg (sample_world 10 10 20) \<and>
   stock_nonneg (run (Update_inventory_qty 1 (- 25)) (sample_world 10 10 20)) \<and>
   stock_nonneg (fold run
     [Calculate_and_log_batch ''Bohemian Pilsner'' 15 10 ''2025-01-01 12:00''
        (sample_items 6 6 6),
      Update_ingredient 11 (Some 1) (Some (- 40)),
      Save_ingredient ''Oak Chips'' (Some 2) ''oz'' ''Other'' (Some 0) (Some 5),
      Delete_selected_ingredient 19]
     (sample_world 10 10 20))"
proof -
  let ?r = "\<lparr>ing_id = 1, ing_name = ''Pilsner Malt'', ing_type = ''Fermentable'',
            ing_cost = 1, detail1 = 2, ing_unit = ''lb'', inventory_qty = 10\<rparr>"
  let ?ops = "[Calculate_and_log_batch ''Bohemian Pilsner'' 15 10 ''2025-01-01 12:00''
        (sample_items 6 6 6),
      Update_ingredient 11 (Some 1) (Some (- 40)),
      Save_ingredient ''Oak Chips'' (Some 2) ''oz'' ''Other'' (Some 0) (Some 5),
      Delete_selected_ingredient 19]"
  note t = stock_floor_at_zero [of "db_file (sample_world 10 10 20)" 1 ?r "- 25" 11
      "sample_world 10 10 20" "Update_inventory_qty 1 (- 25)" ?ops]
  have f: "fetch_ingredient (db_file (sample_world 10 10 20)) 1 = Some ?r"
    by (rule sample_fetch)
  have n: "stock_nonneg (sample_world 10 10 20)"
    by (simp add: stock_nonneg_def sample_world_def)
  have d1: "(- 25 :: real) < 0" and d2: "(10 :: real) < - (- 25)" and d3: "(11 :: int) \<noteq> 1"
    by simp_all
  have d2': "inventory_qty ?r < - (- 25)" by simp
  note z = t [THEN conjunct2, THEN conjunct1, THEN mp, OF conjI [OF f conjI [OF d1 d2']]]
  note o = t [THEN conjunct2, THEN conjunct2, THEN conjunct1, THEN mp, OF d3]
  note s1 = t [THEN conjunct2, THEN conjunct2, THEN conjunct2, THEN conjunct1, THEN mp, OF n]
  note s2 = t [THEN conjunct2, THEN conjunct2, THEN conjunct2, THEN conjunct2, THEN mp, OF n]
  show ?thesis by (intro conjI f d1 d2 d3 z o n s1 s2)
qed

text \<open>
  C7, as amended. The price \<^verbatim>\<open>_scale_and_cost\<close> computes is the total cost times
  1.15, and it shows that price with two decimals. What \<^verbatim>\<open>_log_batch\<close> records as
  \<open>final_cost\<close> is the amount shown: the marked-up price rounded to a whole number
  of hundredths, within half a hundredth of the price itself.
\<close>

theorem logged_cost_is_displayed_quote:
  assumes "current_recipe_id self = Some rid" and "rid \<noteq> 0"
    and "volume_entry self = Some new_volume"
    and "current_recipe_volume self = Some original_volume"
    and "scale_recipe rid original_volume new_volume w = (Inr (scaled, scale_factor), w)"
    and "calculate_recipe_cost scaled w = (Inr total_cost, w)"
    and "BreweryApp_log_batch date_str (fst (BreweryApp_scale_and_cost self w)) w =
           (Inr (Some (True, Batch_logged)), w')"
  shows "COST_MARKUP = 115 / 100 \<and>
         output_cost_var (fst (BreweryApp_scale_and_cost self w)) =
           Final_Estimated_Cost (format_2f (total_cost * COST_MARKUP)) \<and>
         Batch_Log (db_file w') = Batch_Log (db_file w) @
           [\<lparr>batch_id = next_rowid (map batch_id (Batch_Log (db_file w))),
             recipe_name = recipe_var self, volume_BBL = new_volume,
             final_cost = of_int (format_2f (total_cost * COST_MARKUP)) / 100,
             date_brewed = date_str\<rparr>] \<and>
         \<bar>of_int (format_2f (total_cost * COST_MARKUP)) / 100 - total_cost * COST_MARKUP\<bar>
           \<le> 1 / 200"
proof -
  note s = BreweryApp_scale_and_cost_shown [OF assms(1-6)]
  have c: "calculate_and_log_batch (recipe_var self) new_volume
             (of_int (format_2f (total_cost * COST_MARKUP)) / 100) date_str scaled w =
           (Inr (True, Batch_logged), w')"
    using assms(7) unfolding s
    by (auto simp: BreweryApp_log_batch_def assms(3) Let_def split: prod.splits sum.splits)
  show ?thesis
    by (intro conjI calculate_and_log_batch_logged [OF c] format_2f_near)
       (simp_all add: COST_MARKUP_def s)
qed

theorem logged_cost_is_displayed_quote_witness:
  "current_recipe_id (sample_app 30) = Some 1 \<and> (1 :: int) \<noteq> 0 \<and>
   volume_entry (sample_app 30) = Some 30 \<and>
   current_recipe_volume (sample_app 30) = Some 15 \<and>
   scale_recipe 1 15 30 (sample_world 2000 100 20) =
     (Inr (sample_items 1200 30 8, 2), sample_world 2000 100 20) \<and>
   calculate_recipe_cost (sample_items 1200 30 8) (sample_world 2000 100 20) =
     (Inr 1259, sample_world 2000 100 20) \<and>
   fst (BreweryApp_log_batch ''2025-01-01 12:00''
          (fst (BreweryApp_scale_and_cost (sample_app 30) (sample_world 2000 100 20)))
          (sample_world 2000 100 20)) = Inr (Some (True, Batch_logged)) \<and>
   output_cost_var (fst (BreweryApp_scale_and_cost (sample_app 30) (sample_world 2000 100 20)))
     = Final_Estimated_Cost 144785 \<and>
   Batch_Log (db_file (snd (BreweryApp_log_batch ''2025-01-01 12:00''
          (fst (BreweryApp_scale_and_cost (sample_app 30) (sample_world 2000 100 20)))
          (sample_world 2000 100 20)))) =
     [\<lparr>batch_id = 1, recipe_name = ''Bohemian Pilsner'', volume_BBL = 30,
       final_cost = 144785 / 100, date_brewed = ''2025-01-01 12:00''\<rparr>]"
proof -
  let ?w = "sample_world 2000 100 20"
  let ?self' = "fst (BreweryApp_scale_and_cost (sample_app 30) ?w)"
  have h1: "current_recipe_id (sample_app 30) = Some 1"
    and h3: "volume_entry (sample_app 30) = Some 30"
    and h4: "current_recipe_volume (sample_app 30) = Some 15"
    by (rule sample_app_fields)+
  have h2: "(1 :: int) \<noteq> 0" by simp
  note h5 = sample_scale(1) [of 2000 100 20]
  note h6 = sample_cost(1) [of 2000 100 20]
  note s = BreweryApp_scale_and_cost_shown [OF h1 h2 h3 h4 h5 h6, unfolded sample_format]
  have cov: "list_all (covered ?w) (sample_items 1200 30 8)"
    by (simp add: covered_def sample_items_def sample_fetch)
  have lb: "BreweryApp_log_batch ''2025-01-01 12:00'' ?self' ?w =
      (Inr (Some (True, Batch_logged)),
       snd (BreweryApp_log_batch ''2025-01-01 12:00'' ?self' ?w))"
    unfolding s by (simp add: sample_log_batch [OF cov])
  have h7: "fst (BreweryApp_log_batch ''2025-01-01 12:00'' ?self' ?w) =
      Inr (Some (True, Batch_logged))"
    unfolding s by (simp add: sample_log_batch [OF cov])
  note t = logged_cost_is_displayed_quote [OF h1 h2 h3 h4 h5 h6 lb, unfolded sample_format]
  have o: "output_cost_var ?self' = Final_Estimated_Cost 144785"
    by (rule t [THEN conjunct2, THEN conjunct1])
  have b: "Batch_Log (db_file (snd (BreweryApp_log_batch ''2025-01-01 12:00'' ?self' ?w))) =
     [\<lparr>batch_id = 1, recipe_name = ''Bohemian Pilsner'', volume_BBL = 30,
       final_cost = 144785 / 100, date_brewed = ''2025-01-01 12:00''\<rparr>]"
    unfolding t [THEN conjunct2, THEN conjunct2, THEN conjunct1]
    by (simp add: sample_world_def next_rowid_def sample_app_fields)
  show ?thesis by (intro conjI h1 h2 h3 h4 h5 h6 h7 o b)
qed

text \<open>
  C7 as stated fails whenever the marked-up price is not a whole number of hundredths:
  the sample recipe scaled from 15 to 16 BBL costs 10072/15, the marked-up price is
  57914/75 = 772.1866.., and the batch log records 772.19.
\<close>

theorem logged_cost_rounded_counterexample:
  "scale_recipe 1 15 16 (sample_world 2000 100 20) =
     (Inr (sample_items 640 16 (64 / 15), 16 / 15), sample_world 2000 100 20) \<and>
   calculate_recipe_cost (sample_items 640 16 (64 / 15)) (sample_world 2000 100 20) =
     (Inr (10072 / 15), sample_world 2000 100 20) \<and>
   10072 / 15 * COST_MARKUP = 57914 / 75 \<and>
   fst (BreweryApp_log_batch ''2025-01-01 12:00''
          (fst (BreweryApp_scale_and_cost (sample_app 16) (sample_world 2000 100 20)))
          (sample_world 2000 100 20)) = Inr (Some (True, Batch_logged)) \<and>
   map final_cost (Batch_Log (db_file (snd (BreweryApp_log_batch ''2025-01-01 12:00''
          (fst (BreweryApp_scale_and_cost (sample_app 16) (sample_world 2000 100 20)))
          (sample_world 2000 100 20))))) = [77219 / 100] \<and>
   (77219 / 100 :: real) \<noteq> 57914 / 75"
proof -
  let ?w = "sample_world 2000 100 20"
  let ?self' = "fst (BreweryApp_scale_and_cost (sample_app 16) ?w)"
  note h5 = sample_scale(2) [of 2000 100 20]
  note h6 = sample_cost(2) [of 2000 100 20]
  have h2: "(1 :: int) \<noteq> 0" by simp
  note s = BreweryApp_scale_and_cost_shown [OF sample_app_fields(1) h2 sample_app_fields(2)
      sample_app_fields(3) h5 h6, unfolded sample_format]
  have cov: "list_all (covered ?w) (sample_items 640 16 (64 / 15))"
    by (simp add: covered_def sample_items_def sample_fetch)
  have m: "10072 / 15 * COST_MARKUP = 57914 / 75" by (simp add: COST_MARKUP_def)
  have f: "fst (BreweryApp_log_batch ''2025-01-01 12:00'' ?self' ?w) =
      Inr (Some (True, Batch_logged))"
    unfolding s by (simp add: sample_log_batch [OF cov])
  have b: "map final_cost (Batch_Log (db_file (snd (BreweryApp_log_batch ''2025-01-01 12:00''
      ?self' ?w)))) = [77219 / 100]"
    unfolding s fst_conv sample_log_batch [OF cov] snd_conv
    by (simp add: log_batch_tables consume_inventory_other_tables sample_world_def)
  have n: "(77219 / 100 :: real) \<noteq> 57914 / 75" by simp
  show ?thesis by (intro conjI h5 h6 m f b n)
qed

text \<open>
  C8, as amended. When the gateway cannot be opened, no operation changes anything.
  \<^verbatim>\<open>calculate_and_log_batch\<close> returns the failure
  \<^verbatim>\<open>(False, "Database connection failed.")\<close>; \<^verbatim>\<open>calculate_recipe_cost\<close> returns
  the ordinary value 0.0; \<^verbatim>\<open>scale_recipe\<close>, after its volume check, returns the
  ordinary value \<^verbatim>\<open>({}, 0)\<close>.
\<close>

theorem gateway_unavailable:
  assumes "\<not> db_available w"
  shows "calculate_and_log_batch name volume cost date_str ingredient_list w =
           (Inr (False, Connection_failed), w) \<and>
         calculate_recipe_cost ingredient_list w = (Inr 0, w) \<and>
         scale_recipe rid original_volume new_volume w =
           (if original_volume \<le> MIN_VOLUME_BBL \<or> new_volume \<le> MIN_VOLUME_BBL
            then Inl ValueError else Inr ([], 0), w)"
  using assms
  by (intro conjI calculate_and_log_batch_unavailable calculate_recipe_cost_unavailable
        scale_recipe_unavailable)

theorem gateway_unavailable_witness:
  "\<not> db_available ((sample_world 10 10 20)\<lparr>db_available := False\<rparr>) \<and>
   calculate_and_log_batch ''Bohemian Pilsner'' 30 1451 ''2025-01-01 12:00''
       (sample_items 1200 30 8) ((sample_world 10 10 20)\<lparr>db_available := False\<rparr>) =
     (Inr (False, Connection_failed), (sample_world 10 10 20)\<lparr>db_available := False\<rparr>) \<and>
   calculate_recipe_cost (sample_items 1200 30 8)
       ((sample_world 10 10 20)\<lparr>db_available := False\<rparr>) =
     (Inr 0, (sample_world 10 10 20)\<lparr>db_available := False\<rparr>)"
proof -
  note t = gateway_unavailable [OF sample_unavailable [of 10 10 20],
      of "''Bohemian Pilsner''" 30 1451 "''2025-01-01 12:00''" "sample_items 1200 30 8"]
  show ?thesis
    by (intro conjI sample_unavailable t [THEN conjunct1] t [THEN conjunct2, THEN conjunct1])
qed

text \<open>
  C8 as stated fails for two of the three operations: with the gateway closed,
  \<^verbatim>\<open>scale_recipe\<close> and \<^verbatim>\<open>calculate_recipe_cost\<close> return ordinary results, not
  an error.
\<close>

theorem gateway_unavailable_counterexample:
  "\<not> db_available ((sample_world 10 10 20)\<lparr>db_available := False\<rparr>) \<and>
   scale_recipe 1 15 30 ((sample_world 10 10 20)\<lparr>db_available := False\<rparr>) =
     (Inr ([], 0), (sample_world 10 10 20)\<lparr>db_available := False\<rparr>) \<and>
   calculate_recipe_cost (sample_items 1200 30 8)
       ((sample_world 10 10 20)\<lparr>db_available := False\<rparr>) =
     (Inr 0, (sample_world 10 10 20)\<lparr>db_available := False\<rparr>)"
proof (intro conjI)
  show "\<not> db_available ((sample_world 10 10 20)\<lparr>db_available := False\<rparr>)" by simp
  show "scale_recipe 1 15 30 ((sample_world 10 10 20)\<lparr>db_available := False\<rparr>) =
     (Inr ([], 0), (sample_world 10 10 20)\<lparr>db_available := False\<rparr>)"
    by (simp add: scale_recipe_unavailable MIN_VOLUME_BBL_def)
  show "calculate_recipe_cost (sample_items 1200 30 8)
       ((sample_world 10 10 20)\<lparr>db_available := False\<rparr>) =
     (Inr 0, (sample_world 10 10 20)\<lparr>db_available := False\<rparr>)"
    by (simp add: calculate_recipe_cost_unavailable)
qed

text \<open>
  C9. If every item names a stored ingredient, neither \<^verbatim>\<open>calculate_and_log_batch\<close>
  nor \<^verbatim>\<open>calculate_recipe_cost\<close> raises: both return a result. With the gateway
  open, an item naming no stored ingredient makes \<^verbatim>\<open>calculate_recipe_cost\<close> raise
  \<^verbatim>\<open>TypeError\<close> wherever it stands in the list, and makes
  \<^verbatim>\<open>calculate_and_log_batch\<close> raise \<^verbatim>\<open>TypeError\<close> when the items before it are
  all covered by the stock; the world is left as it was.
\<close>

theorem lookup_total_if_known:
  "(list_all (known w) ingredient_list \<longrightarrow>
      (\<exists>r. calculate_and_log_batch name volume cost date_str ingredient_list w
             = (Inr r, snd (calculate_and_log_batch name volume cost date_str ingredient_list w))) \<and>
      (\<exists>x. calculate_recipe_cost ingredient_list w = (Inr x, w))) \<and>
   (db_available w \<and> list_all (covered w) before \<and> \<not> known w ing \<longrightarrow>
      calculate_and_log_batch name volume cost date_str (before @ ing # after) w =
        (Inl TypeError, w)) \<and>
   (db_available w \<and> \<not> list_all (known w) ingredient_list \<longrightarrow>
      calculate_recipe_cost ingredient_list w = (Inl TypeError, w))"
proof (intro conjI impI)
  assume k: "list_all (known w) ingredient_list"
  from check_inventory_known [OF k] obtain m where
    m: "check_inventory (db_file w) ingredient_list = Inr m" ..
  show "\<exists>r. calculate_and_log_batch name volume cost date_str ingredient_list w
             = (Inr r, snd (calculate_and_log_batch name volume cost date_str ingredient_list w))"
    using m
    by (cases m) (auto simp: calculate_and_log_batch_def connect_db_def Let_def)
  show "\<exists>x. calculate_recipe_cost ingredient_list w = (Inr x, w)"
  proof (cases "db_available w")
    case True
    with k show ?thesis by (simp add: calculate_recipe_cost_known)
  next
    case False
    then show ?thesis by (simp add: calculate_recipe_cost_unavailable)
  qed
next
  assume "db_available w \<and> list_all (covered w) before \<and> \<not> known w ing"
  then show "calculate_and_log_batch name volume cost date_str (before @ ing # after) w =
        (Inl TypeError, w)"
    by (simp add: calculate_and_log_batch_def connect_db_def check_inventory_unknown)
next
  assume "db_available w \<and> \<not> list_all (known w) ingredient_list"
  then show "calculate_recipe_cost ingredient_list w = (Inl TypeError, w)"
    by (simp add: calculate_recipe_cost_unknown)
qed

theorem lookup_total_if_known_witness:
  "list_all (known (sample_world 10 10 20)) (sample_items 1200 30 8) \<and>
   (\<exists>r. fst (calculate_and_log_batch ''Bohemian Pilsner'' 30 1451 ''2025-01-01 12:00''
              (sample_items 1200 30 8) (sample_world 10 10 20)) = Inr r) \<and>
   (\<exists>x. calculate_recipe_cost (sample_items 1200 30 8) (sample_world 10 10 20) =
          (Inr x, sample_world 10 10 20)) \<and>
   db_available (sample_world 10 10 20) \<and>
   list_all (covered (sample_world 10 10 20)) (sample_items 5 5 4) \<and>
   \<not> known (sample_world 10 10 20)
       \<lparr>item_id = 99, item_name = ''Oak Chips'', item_quantity = 1, item_unit = ''oz''\<rparr> \<and>
   \<not> list_all (known (sample_world 10 10 20))
       (sample_items 5 5 4 @
        [\<lparr>item_id = 99, item_name = ''Oak Chips'', item_quantity = 1, item_unit = ''oz''\<rparr>]) \<and>
   calculate_and_log_batch ''Bohemian Pilsner'' 30 1451 ''2025-01-01 12:00''
       (sample_items 5 5 4 @
        [\<lparr>item_id = 99, item_name = ''Oak Chips'', item_quantity = 1, item_unit = ''oz''\<rparr>])
       (sample_world 10 10 20) = (Inl TypeError, sample_world 10 10 20) \<and>
   calculate_recipe_cost
       (sample_items 5 5 4 @
        [\<lparr>item_id = 99, item_name = ''Oak Chips'', item_quantity = 1, item_unit = ''oz''\<rparr>])
       (sample_world 10 10 20) = (Inl TypeError, sample_world 10 10 20)"
proof -
  let ?w = "sample_world 10 10 20"
  let ?oak = "\<lparr>item_id = 99, item_name = ''Oak Chips'', item_quantity = 1, item_unit = ''oz''\<rparr>"
  have k: "list_all (known ?w) (sample_items 1200 30 8)"
    by (simp add: known_def sample_items_def sample_fetch)
  have a: "db_available ?w" by (rule sample_available)
  have c: "list_all (covered ?w) (sample_items 5 5 4)"
    by (simp add: covered_def sample_items_def sample_fetch)
  have u: "\<not> known ?w ?oak" by (simp add: known_def sample_fetch_absent)
  have nk: "\<not> list_all (known ?w) (sample_items 5 5 4 @ [?oak])"
    using u by simp
  note t1 = lookup_total_if_known [of ?w "sample_items 1200 30 8" "''Bohemian Pilsner''" 30
      1451 "''2025-01-01 12:00''" "sample_items 5 5 4" ?oak "[]"]
  note t2 = lookup_total_if_known [of ?w "sample_items 5 5 4 @ [?oak]" "''Bohemian Pilsner''"
      30 1451 "''2025-01-01 12:00''" "sample_items 5 5 4" ?oak "[]"]
  from t1 k have e1: "\<exists>r. fst (calculate_and_log_batch ''Bohemian Pilsner'' 30 1451
      ''2025-01-01 12:00'' (sample_items 1200 30 8) ?w) = Inr r"
    by (metis fst_conv)
  from t1 k have e2: "\<exists>x. calculate_recipe_cost (sample_items 1200 30 8) ?w = (Inr x, ?w)"
    by blast
  from t1 a c u have e3: "calculate_and_log_batch ''Bohemian Pilsner'' 30 1451
      ''2025-01-01 12:00'' (sample_items 5 5 4 @ [?oak]) ?w = (Inl TypeError, ?w)"
    by blast
  from t2 a nk have e4: "calculate_recipe_cost (sample_items 5 5 4 @ [?oak]) ?w =
      (Inl TypeError, ?w)"
    by blast
  show ?thesis by (intro conjI k e1 e2 a c u nk e3 e4)
qed

text \<open>
  C10. \<^verbatim>\<open>calculate_recipe_cost\<close> terminates on every list: a recursive call made on
  a list is made on its tail, which is strictly shorter; so every input lies in the
  accessible part of the call relation, and the function returns.
\<close>

theorem calculate_recipe_cost_terminates:
  "(\<forall>x. calculate_recipe_cost_rel x (ingredient_list, w) \<longrightarrow>
        x = (drop 1 ingredient_list, w) \<and> length (fst x) < length ingredient_list) \<and>
   calculate_recipe_cost_dom (ingredient_list, w) \<and>
   (\<exists>r. calculate_recipe_cost ingredient_list w = (r, w))"
proof (intro conjI allI impI)
  fix x
  assume "calculate_recipe_cost_rel x (ingredient_list, w)"
  then show "x = (drop 1 ingredient_list, w)"
    by (cases rule: calculate_recipe_cost_rel.cases) simp
next
  fix x
  assume "calculate_recipe_cost_rel x (ingredient_list, w)"
  then show "length (fst x) < length ingredient_list"
    by (cases rule: calculate_recipe_cost_rel.cases) auto
next
  show "calculate_recipe_cost_dom (ingredient_list, w)"
    by (rule "calculate_recipe_cost.termination"
          [of "measure (\<lambda>(ingredient_list, w). length ingredient_list)", THEN spec]) auto
next
  have "calculate_recipe_cost ingredient_list w =
      (fst (calculate_recipe_cost ingredient_list w), w)"
    by (metis calculate_recipe_cost_world prod.collapse)
  then show "\<exists>r. calculate_recipe_cost ingredient_list w = (r, w)" ..
qed

theorem calculate_recipe_cost_terminates_witness:
  "calculate_recipe_cost_rel
     (drop 1 (sample_items 1200 30 8), sample_world 10 10 20)
     (sample_items 1200 30 8, sample_world 10 10 20) \<and>
   length (drop 1 (sample_items 1200 30 8)) < length (sample_items 1200 30 8) \<and>
   calculate_recipe_cost_dom (sample_items 1200 30 8, sample_world 10 10 20) \<and>
   (\<exists>r. calculate_recipe_cost (sample_items 1200 30 8) (sample_world 10 10 20) =
          (r, sample_world 10 10 20))"
proof -
  note t = calculate_recipe_cost_terminates
    [of "sample_items 1200 30 8" "sample_world 10 10 20"]
  have ne: "sample_items 1200 30 8 \<noteq> []" by (simp add: sample_items_def)
  have c: "connect_db (sample_world 10 10 20) = Some (db_file (sample_world 10 10 20))"
    by (simp add: connect_db_def sample_available)
  have f: "fetch_ingredient (db_file (sample_world 10 10 20))
             (item_id (hd (sample_items 1200 30 8))) =
           Some \<lparr>ing_id = 1, ing_name = ''Pilsner Malt'', ing_type = ''Fermentable'',
                  ing_cost = 1, detail1 = 2, ing_unit = ''lb'', inventory_qty = 10\<rparr>"
    by (simp add: sample_items_def sample_fetch)
  have r: "calculate_recipe_cost_rel
             (drop 1 (sample_items 1200 30 8), sample_world 10 10 20)
             (sample_items 1200 30 8, sample_world 10 10 20)"
    by (rule calculate_recipe_cost_rel.intros [OF ne refl refl refl c f refl refl])
  from t [THEN conjunct1, THEN spec, THEN mp, OF r]
  have l: "length (drop 1 (sample_items 1200 30 8)) < length (sample_items 1200 30 8)"
    by simp
  show ?thesis by (intro conjI r l t [THEN conjunct2, THEN conjunct1]
      t [THEN conjunct2, THEN conjunct2])
qed

end
